theory Spec2Isabelle
  imports
    Complex_Main
    "HOL-Library.Multiset"
    "HOL-Library.Product_Lexorder"
    "HOL-Library.List_Lexorder"
    "HOL-Library.Char_ord"
    "HOL-Library.AList"
begin

section \<open>Data sets and Python values\<close>

text \<open>
  The outcome of a Python conversion \<^verbatim>\<open>float(v)\<close> or \<^verbatim>\<open>int(v)\<close> on the value stored
  under an attribute: \<open>Parsed x\<close> when the conversion returns \<open>x\<close>, \<open>Unparsable\<close> when it
  raises \<^verbatim>\<open>ValueError\<close> or \<^verbatim>\<open>TypeError\<close> (an empty value, text that is no number).
  Finite floats are rational numbers and compare as such, so they are \<^typ>\<open>rat\<close>.
\<close>

datatype 'a conv = Unparsable | Parsed 'a

text \<open>\<^verbatim>\<open>str(n)\<close> of a natural number: its decimal digits.\<close>

fun str_nat :: "nat \<Rightarrow> string" where
  "str_nat n =
     (if n < 10 then [''0123456789'' ! n]
      else str_nat (n div 10) @ [''0123456789'' ! (n mod 10)])"

declare str_nat.simps [simp del]

text \<open>\<^verbatim>\<open>str\<close> of an integer.\<close>

definition str_int :: "int \<Rightarrow> string" where
  "str_int i = (if i < 0 then ''-'' @ str_nat (nat (- i)) else str_nat (nat i))"

text \<open>
  Exceptions are values: the class, with the message \<^verbatim>\<open>str(e)\<close>; an
  \<^verbatim>\<open>HTTPError\<close> has its status code and its message.
\<close>

datatype py_error =
    ValueError string
  | TypeError string
  | IndexError string
  | HTTPError int string
  | LibraryError string

fun err_str :: "py_error \<Rightarrow> string" where
  "err_str (ValueError m) = m"
| "err_str (TypeError m) = m"
| "err_str (IndexError m) = m"
| "err_str (HTTPError code msg) = ''HTTP Error '' @ str_int code @ '': '' @ msg"
| "err_str (LibraryError m) = m"

text \<open>A loop whose body may raise: the first exception ends it.\<close>

fun fold_err :: "('b \<Rightarrow> 'a \<Rightarrow> py_error + 'b) \<Rightarrow> 'b \<Rightarrow> 'a list \<Rightarrow> py_error + 'b" where
  "fold_err f acc [] = Inr acc"
| "fold_err f acc (x # xs) =
     (case f acc x of Inl e \<Rightarrow> Inl e | Inr acc' \<Rightarrow> fold_err f acc' xs)"

text \<open>
  A numpy array: its shape, its dtype and its elements in row-major order. A dtype is an
  unsigned or a signed integer of a width in bits, or a float; the elements of an integer
  array are integers. Arithmetic on two scalars of an integer dtype stays in the dtype and
  wraps around; floats are exact here.
\<close>

datatype dtype = UInt nat | SInt nat | Float

record ndarray =
  shape :: "nat list"
  dtype :: dtype
  elems :: "rat list"

definition wrap :: "dtype \<Rightarrow> rat \<Rightarrow> rat" where
  "wrap dt x =
     (case dt of
        Float \<Rightarrow> x
      | UInt w \<Rightarrow> of_int (\<lfloor>x\<rfloor> mod 2 ^ w)
      | SInt w \<Rightarrow> of_int ((\<lfloor>x\<rfloor> + 2 ^ (w - 1)) mod 2 ^ w - 2 ^ (w - 1)))"

definition np_sub :: "dtype \<Rightarrow> rat \<Rightarrow> rat \<Rightarrow> rat" where
  "np_sub dt x y = wrap dt (x - y)"

definition np_add :: "dtype \<Rightarrow> rat \<Rightarrow> rat \<Rightarrow> rat" where
  "np_add dt x y = wrap dt (x + y)"

text \<open>
  The value of \<^verbatim>\<open>WindowCenter\<close> or \<^verbatim>\<open>WindowWidth\<close>: one value, or a Python list or
  tuple of values.
\<close>

datatype window_value = Single "rat conv" | Multi "rat conv list"

text \<open>
  The value of the plain attribute \<^verbatim>\<open>filename\<close> of a data set: \<^verbatim>\<open>None\<close>, a text, or
  another object, given by its identity. A data set that \<^verbatim>\<open>dcmread\<close> reads from a
  \<^verbatim>\<open>BytesIO\<close> carries \<^verbatim>\<open>None\<close> or, in older versions of pydicom, that \<^verbatim>\<open>BytesIO\<close>.
\<close>

datatype py_value = PyNone | PyText string | PyObject nat

text \<open>
  A pydicom \<^verbatim>\<open>Dataset\<close>, with the attributes the program reads. An attribute that is
  absent (\<^verbatim>\<open>hasattr\<close> is false, \<^verbatim>\<open>getattr\<close> gives its default) is \<open>None\<close>. The text
  attributes hold what \<^verbatim>\<open>str\<close> gives. \<open>obj_id\<close> is the object's identity \<^verbatim>\<open>id(ds)\<close>,
  \<open>n_elements\<close> is \<^verbatim>\<open>len(ds)\<close> (a data set with no element is falsy), and
  \<open>pixel_array\<close> is what reading the property of that name gives or raises, after the
  attempt to decompress. An empty or \<^verbatim>\<open>None\<close> value of \<^verbatim>\<open>ImagePositionPatient\<close> is
  the empty list. A conversion of \<^verbatim>\<open>NumberOfFrames\<close> is its comparison with 1.
\<close>

record dataset =
  obj_id :: nat
  n_elements :: nat
  filename :: "py_value option"
  ImagePositionPatient :: "rat conv list option"
  InstanceNumber :: "int conv option"
  Modality :: "string option"
  SeriesInstanceUID :: "string option"
  SeriesDescription :: "string option"
  PatientName :: "string option"
  PatientID :: "string option"
  StudyDate :: "string option"
  AccessionNumber :: "string option"
  StudyDescription :: "string option"
  pixel_array :: "py_error + ndarray"
  PhotometricInterpretation :: "string option"
  NumberOfFrames :: "int conv option"
  WindowCenter :: "window_value option"
  WindowWidth :: "window_value option"
  RescaleSlope :: "rat conv option"
  RescaleIntercept :: "rat conv option"

section \<open>Series and studies (models.py)\<close>

record DicomSeries =
  series_uid :: string
  series_description :: string
  instances :: "dataset list"
  modality :: string

definition DicomSeries_init :: "string \<Rightarrow> string \<Rightarrow> DicomSeries" where
  "DicomSeries_init uid description =
     \<lparr>series_uid = uid, series_description = description, instances = [],
      modality = []\<rparr>"

definition DicomSeries_add_instance :: "DicomSeries \<Rightarrow> dataset \<Rightarrow> DicomSeries" where
  "DicomSeries_add_instance s ds =
     (let s1 = s\<lparr>instances := instances s @ [ds]\<rparr>
      in case Modality ds of
           Some m \<Rightarrow> if modality s1 = [] then s1\<lparr>modality := m\<rparr> else s1
         | None \<Rightarrow> s1)"

text \<open>
  The three parts of the local function \<^verbatim>\<open>sort_key\<close> (here \<open>sort_key_ds\<close>). The Z
  position stays 0 when the attribute is absent or falsy, has no third component
  (\<^verbatim>\<open>IndexError\<close>) or one that \<^verbatim>\<open>float\<close> rejects. The third part is the value of
  \<^verbatim>\<open>filename\<close>, whatever it is; the text of the identity is taken only when the
  attribute is absent.
\<close>

definition z_pos :: "dataset \<Rightarrow> rat" where
  "z_pos ds =
     (case ImagePositionPatient ds of
        None \<Rightarrow> 0
      | Some v \<Rightarrow>
          if v = [] then 0
          else if length v \<le> 2 then 0
          else (case v ! 2 of Parsed z \<Rightarrow> z | Unparsable \<Rightarrow> 0))"

definition instance_num :: "dataset \<Rightarrow> int" where
  "instance_num ds =
     (case InstanceNumber ds of
        None \<Rightarrow> 0
      | Some Unparsable \<Rightarrow> 0
      | Some (Parsed n) \<Rightarrow> n)"

definition filename_key :: "dataset \<Rightarrow> py_value" where
  "filename_key ds =
     (case filename ds of Some v \<Rightarrow> v | None \<Rightarrow> PyText (str_nat (obj_id ds)))"

definition sort_key_ds :: "dataset \<Rightarrow> rat \<times> int \<times> py_value" where
  "sort_key_ds ds = (z_pos ds, instance_num ds, filename_key ds)"

text \<open>
  Python's \<^verbatim>\<open><\<close> on two keys. Tuples are compared at the first position where they are
  not equal; texts compare by code point, \<^verbatim>\<open>None\<close> equals \<^verbatim>\<open>None\<close>, an object equals
  itself only, and \<^verbatim>\<open><\<close> between two unequal values that are not both text raises
  \<^verbatim>\<open>TypeError\<close>.
\<close>

fun py_lt :: "rat \<times> int \<times> py_value \<Rightarrow> rat \<times> int \<times> py_value \<Rightarrow> py_error + bool" where
  "py_lt (z1, n1, t1) (z2, n2, t2) =
     (if z1 \<noteq> z2 then Inr (z1 < z2)
      else if n1 \<noteq> n2 then Inr (n1 < n2)
      else if t1 = t2 then Inr False
      else (case (t1, t2) of
              (PyText a, PyText b) \<Rightarrow> Inr (a < b)
            | _ \<Rightarrow> Inl (TypeError ''< not supported between instances'')))"

text \<open>
  \<^verbatim>\<open>list.sort(key=...)\<close> is a stable sort that decides by \<^verbatim>\<open><\<close> on the keys alone. Two
  instances with the same position and number whose third parts cannot be compared can
  only be ordered by comparing such a pair, so the sort raises exactly when the list
  holds one. Otherwise the third parts that meet are texts or are equal, and the order of
  the keys is that of \<open>sort_rank\<close>, where a value that is no text counts as the empty
  text.
\<close>

definition sort_raises :: "dataset list \<Rightarrow> bool" where
  "sort_raises xs =
     list_ex (\<lambda>x. list_ex (\<lambda>y. isl (py_lt (sort_key_ds x) (sort_key_ds y))) xs) xs"

definition text_rank :: "py_value \<Rightarrow> string" where
  "text_rank v = (case v of PyText s \<Rightarrow> s | _ \<Rightarrow> [])"

definition sort_rank :: "dataset \<Rightarrow> rat \<times> int \<times> string" where
  "sort_rank ds = (z_pos ds, instance_num ds, text_rank (filename_key ds))"

definition DicomSeries_sort_instances :: "DicomSeries \<Rightarrow> py_error + DicomSeries" where
  "DicomSeries_sort_instances s =
     (if sort_raises (instances s)
      then Inl (TypeError ''< not supported between instances'')
      else Inr (s\<lparr>instances := sort_key sort_rank (instances s)\<rparr>))"

text \<open>
  The series of a study are a Python dictionary: an association list in insertion order.
\<close>

record DicomStudy =
  study_uid :: string
  series :: "(string \<times> DicomSeries) list"
  patient_name :: string
  patient_id :: string
  study_date :: string
  accession_number :: string
  study_description :: string

definition DicomStudy_init :: "string \<Rightarrow> DicomStudy" where
  "DicomStudy_init uid =
     \<lparr>study_uid = uid, series = [], patient_name = [], patient_id = [],
      study_date = [], accession_number = [], study_description = []\<rparr>"

text \<open>\<^verbatim>\<open>if not field and hasattr(dataset, attr): field = str(dataset.attr)\<close>\<close>

definition first_write :: "string \<Rightarrow> string option \<Rightarrow> string" where
  "first_write field attr =
     (case attr of Some v \<Rightarrow> if field = [] then v else field | None \<Rightarrow> field)"

definition routing_key :: "dataset \<Rightarrow> string" where
  "routing_key ds = (case SeriesInstanceUID ds of Some u \<Rightarrow> u | None \<Rightarrow> ''UNKNOWN'')"

definition DicomStudy_add_instance :: "DicomStudy \<Rightarrow> dataset \<Rightarrow> DicomStudy" where
  "DicomStudy_add_instance st ds =
     (let uid = routing_key ds;
          ser = (if map_of (series st) uid = None
                 then series st @
                   [(uid, DicomSeries_init uid
                      (case SeriesDescription ds of Some d \<Rightarrow> d | None \<Rightarrow> []))]
                 else series st);
          ser' = AList.map_entry uid (\<lambda>s. DicomSeries_add_instance s ds) ser
      in st\<lparr>series := ser',
            patient_name := first_write (patient_name st) (PatientName ds),
            patient_id := first_write (patient_id st) (PatientID ds),
            study_date := first_write (study_date st) (StudyDate ds),
            accession_number := first_write (accession_number st) (AccessionNumber ds),
            study_description := first_write (study_description st) (StudyDescription ds)\<rparr>)"

text \<open>
  \<^verbatim>\<open>finalize\<close> sorts the series one after the other; the exception of a sort leaves
  the loop.
\<close>

fun sort_all :: "(string \<times> DicomSeries) list \<Rightarrow> py_error + (string \<times> DicomSeries) list" where
  "sort_all [] = Inr []"
| "sort_all ((uid, s) # rest) =
     (case DicomSeries_sort_instances s of
        Inl e \<Rightarrow> Inl e
      | Inr s' \<Rightarrow>
          (case sort_all rest of
             Inl e \<Rightarrow> Inl e
           | Inr rest' \<Rightarrow> Inr ((uid, s') # rest')))"

definition DicomStudy_finalize :: "DicomStudy \<Rightarrow> py_error + DicomStudy" where
  "DicomStudy_finalize st =
     (case sort_all (series st) of
        Inl e \<Rightarrow> Inl e
      | Inr ser \<Rightarrow> Inr (st\<lparr>series := ser\<rparr>))"

section \<open>Retrieval scheduler: the network (dicomweb_utils.py)\<close>

text \<open>
  One HTTP request, as \<^verbatim>\<open>urllib.request.Request\<close> receives it: the address before the
  query, the query parameters, the headers and the timeout in seconds.
\<close>

record request =
  req_url :: string
  req_query :: "(string \<times> string) list"
  req_headers :: "(string \<times> string) list"
  req_timeout :: nat

record response =
  status :: int
  body :: string

text \<open>
  The metadata tree that \<^verbatim>\<open>json.loads\<close> returns, in the shape the server documents:
  objects with text identifiers and lists of objects. An identifier that is missing or
  \<^verbatim>\<open>null\<close> is \<open>None\<close>. A list may be missing, be \<^verbatim>\<open>null\<close>, or be there.
\<close>

datatype 'a field = Missing | Null | Items "'a list"

record series_data =
  md_series_iuid :: "string option"
  md_instances :: "string option field"

record study_data =
  md_study_iuid :: "string option"
  md_series :: "series_data field"

record metadata =
  md_studies :: "study_data field"

text \<open>
  What the program does not decide: the environment variable, the server's answer to a
  request (or the exception \<^verbatim>\<open>urlopen\<close> raises), the JSON and DICOM decoders, and the
  order in which \<^verbatim>\<open>as_completed\<close> yields the futures of one series, given with the
  object identifier and the result of each.
\<close>

record world =
  DICOM_WADO_URL :: "string option"
  urlopen :: "request \<Rightarrow> py_error + response"
  json_loads :: "string \<Rightarrow> py_error + metadata"
  dcmread :: "string \<Rightarrow> py_error + dataset"
  as_completed ::
    "string \<Rightarrow> string \<Rightarrow> (string \<times> dataset option) list \<Rightarrow> (string \<times> dataset option) list"

text \<open>
  Text is its UTF-8 bytes. \<^verbatim>\<open>str.strip()\<close> removes white space by code point, so the
  bytes are grouped by code point first: a byte from 0x80 to 0xBF continues the code
  point before it.
\<close>

definition is_cont :: "char \<Rightarrow> bool" where
  "is_cont c = (0x80 \<le> (of_char c :: nat) \<and> (of_char c :: nat) < 0xC0)"

function code_points :: "string \<Rightarrow> string list" where
  "code_points [] = []"
| "code_points (c # cs) = (c # takeWhile is_cont cs) # code_points (dropWhile is_cont cs)"
  by pat_completeness auto
termination
  by (relation "measure length") (auto simp add: less_Suc_eq_le length_dropWhile_le)

text \<open>
  The code points that \<^verbatim>\<open>str.isspace\<close> accepts: the ASCII ones, U+0085, U+00A0,
  U+1680, U+2000 to U+200A, U+2028, U+2029, U+202F, U+205F and U+3000.
\<close>

definition is_space :: "string \<Rightarrow> bool" where
  "is_space cp =
     (cp \<in> set [[CHR 0x20], [CHR 0x09], [CHR 0x0A], [CHR 0x0B], [CHR 0x0C], [CHR 0x0D],
                [CHR 0x1C], [CHR 0x1D], [CHR 0x1E], [CHR 0x1F],
                [CHR 0xC2, CHR 0x85], [CHR 0xC2, CHR 0xA0], [CHR 0xE1, CHR 0x9A, CHR 0x80],
                [CHR 0xE2, CHR 0x80, CHR 0xA8], [CHR 0xE2, CHR 0x80, CHR 0xA9],
                [CHR 0xE2, CHR 0x80, CHR 0xAF], [CHR 0xE2, CHR 0x81, CHR 0x9F],
                [CHR 0xE3, CHR 0x80, CHR 0x80]]
      \<or> (case cp of
            [a, b, c] \<Rightarrow>
              a = CHR 0xE2 \<and> b = CHR 0x80
              \<and> 0x80 \<le> (of_char c :: nat) \<and> (of_char c :: nat) \<le> 0x8A
          | _ \<Rightarrow> False))"

definition rstrip :: "('a \<Rightarrow> bool) \<Rightarrow> 'a list \<Rightarrow> 'a list" where
  "rstrip p s = rev (dropWhile p (rev s))"

definition strip :: "('a \<Rightarrow> bool) \<Rightarrow> 'a list \<Rightarrow> 'a list" where
  "strip p s = rstrip p (dropWhile p s)"

definition strip_space :: "string \<Rightarrow> string" where
  "strip_space s = concat (strip is_space (code_points s))"

definition get_dicom_wado_url :: "world \<Rightarrow> py_error + string" where
  "get_dicom_wado_url W =
     (let url = strip_space (case DICOM_WADO_URL W of Some v \<Rightarrow> v | None \<Rightarrow> []);
          url = strip (\<lambda>c. c = CHR 0x22 \<or> c = CHR 0x27) url
      in if url = []
         then Inl (ValueError ''DICOM_WADO_URL environment variable not configured or empty'')
         else Inr url)"

definition metadata_request :: "string \<Rightarrow> string \<Rightarrow> request" where
  "metadata_request url study_iuid =
     \<lparr>req_url = rstrip (\<lambda>c. c = CHR ''/'') url,
      req_query = [(''studyUID'', study_iuid)],
      req_headers = [(''Accept'', ''application/json''),
                     (''User-Agent'', ''DICOM-PDF-Converter/1.0'')],
      req_timeout = 30\<rparr>"

text \<open>
  \<^verbatim>\<open>get_study_metadata\<close> logs an exception and raises it again, so the error is its
  result.
\<close>

definition get_study_metadata :: "world \<Rightarrow> string \<Rightarrow> py_error + metadata" where
  "get_study_metadata W study_iuid =
     (case get_dicom_wado_url W of
        Inl e \<Rightarrow> Inl e
      | Inr url \<Rightarrow>
          (case urlopen W (metadata_request url study_iuid) of
             Inl e \<Rightarrow> Inl e
           | Inr resp \<Rightarrow>
               if status resp = 200 then json_loads W (body resp)
               else Inl (HTTPError (status resp) (''HTTP '' @ str_int (status resp)))))"

definition instance_request :: "string \<Rightarrow> string \<Rightarrow> string \<Rightarrow> string \<Rightarrow> request" where
  "instance_request url st_uid se_uid sop_uid =
     \<lparr>req_url = rstrip (\<lambda>c. c = CHR ''/'') url @ ''/images'',
      req_query = [(''studyUID'', st_uid), (''seriesUID'', se_uid),
                   (''objectUID'', sop_uid)],
      req_headers = [(''Accept'', ''application/dicom''),
                     (''User-Agent'', ''DICOM-PDF-Converter/1.0''),
                     (''Connection'', ''keep-alive'')],
      req_timeout = 15\<rparr>"

text \<open>
  The body of the \<^verbatim>\<open>try\<close> block of \<^verbatim>\<open>download_dicom_instance\<close>: the requests it has
  sent, and the data set or the exception raised.
\<close>

definition download_attempt ::
  "world \<Rightarrow> string \<Rightarrow> string \<Rightarrow> string \<Rightarrow> request list \<times> (py_error + dataset)" where
  "download_attempt W st_uid se_uid sop_uid =
     (case get_dicom_wado_url W of
        Inl e \<Rightarrow> ([], Inl e)
      | Inr url \<Rightarrow>
          (let req = instance_request url st_uid se_uid sop_uid
           in case urlopen W req of
                Inl e \<Rightarrow> ([req], Inl e)
              | Inr resp \<Rightarrow>
                  if status resp = 200 then ([req], dcmread W (body resp))
                  else ([req], Inl (HTTPError (status resp) (''HTTP '' @ str_int (status resp))))))"

text \<open>
  \<^verbatim>\<open>download_dicom_instance\<close>: the result (\<open>None\<close> is Python's \<^verbatim>\<open>None\<close>), the requests
  sent and the warnings logged. Debug messages are left out.
\<close>

definition download_dicom_instance ::
  "world \<Rightarrow> string \<Rightarrow> string \<Rightarrow> string \<Rightarrow> dataset option \<times> request list \<times> string list" where
  "download_dicom_instance W st_uid se_uid sop_uid =
     (case download_attempt W st_uid se_uid sop_uid of
        (reqs, Inr ds) \<Rightarrow> (Some ds, reqs, [])
      | (reqs, Inl e) \<Rightarrow>
          (None, reqs, [''Failed to download instance '' @ sop_uid @ '': '' @ err_str e]))"

section \<open>Retrieval scheduler: worker policy\<close>

text \<open>
  \<^verbatim>\<open>optimize_max_workers\<close> of \<^verbatim>\<open>dicomweb_utils.py\<close>. Python integers are unbounded,
  so both arguments and the result are \<^typ>\<open>int\<close>.
\<close>

definition optimize_max_workers :: "int \<Rightarrow> int \<Rightarrow> int" where
  "optimize_max_workers total_instances requested_workers =
     (if total_instances \<le> 2 then 1
      else if total_instances \<le> 10 then min 2 requested_workers
      else if total_instances \<le> 50 then min 4 requested_workers
      else min 8 requested_workers)"

section \<open>Retrieval scheduler: one study (dicomweb_utils.py)\<close>

text \<open>
  \<^verbatim>\<open>d.get(key, [])\<close> gives the empty list for a missing key and the stored value
  otherwise. Iterating over \<^verbatim>\<open>None\<close> and taking its length both raise \<^verbatim>\<open>TypeError\<close>.
  The messages are Python's without their quotation marks.
\<close>

definition get_iter :: "'a field \<Rightarrow> py_error + 'a list" where
  "get_iter v =
     (case v of
        Missing \<Rightarrow> Inr []
      | Null \<Rightarrow> Inl (TypeError ''NoneType object is not iterable'')
      | Items l \<Rightarrow> Inr l)"

definition get_sized :: "'a field \<Rightarrow> py_error + 'a list" where
  "get_sized v =
     (case v of
        Missing \<Rightarrow> Inr []
      | Null \<Rightarrow> Inl (TypeError ''object of type NoneType has no len()'')
      | Items l \<Rightarrow> Inr l)"

text \<open>The count of the declared instances, over all studies and series.\<close>

definition count_series :: "int \<Rightarrow> series_data \<Rightarrow> py_error + int" where
  "count_series n sd =
     (case get_sized (md_instances sd) of
        Inl e \<Rightarrow> Inl e
      | Inr instance_list \<Rightarrow> Inr (n + int (length instance_list)))"

definition count_study :: "int \<Rightarrow> study_data \<Rightarrow> py_error + int" where
  "count_study n sd =
     (case get_iter (md_series sd) of
        Inl e \<Rightarrow> Inl e
      | Inr series_list \<Rightarrow> fold_err count_series n series_list)"

definition total_instances_count :: "metadata \<Rightarrow> py_error + int" where
  "total_instances_count md =
     (case get_iter (md_studies md) of
        Inl e \<Rightarrow> Inl e
      | Inr study_list \<Rightarrow> fold_err count_study 0 study_list)"

text \<open>The object identifiers that are fetched: \<^verbatim>\<open>if sop_uid:\<close>\<close>

definition sop_uids :: "string option list \<Rightarrow> string list" where
  "sop_uids instance_list = filter (\<lambda>sop. sop \<noteq> []) (List.map_filter (\<lambda>i. i) instance_list)"

text \<open>\<^verbatim>\<open>if dataset:\<close> holds for a data set that is not \<^verbatim>\<open>None\<close> and has an element.\<close>

definition successes :: "dataset option list \<Rightarrow> dataset list" where
  "successes results = filter (\<lambda>ds. 0 < n_elements ds) (List.map_filter (\<lambda>r. r) results)"

text \<open>
  The downloads of one series, \<^verbatim>\<open>downloaded_instances\<close>: in completion order when a pool
  is used, in declared order otherwise.
\<close>

definition fetch_series ::
  "world \<Rightarrow> string \<Rightarrow> string \<Rightarrow> int \<Rightarrow> string option list \<Rightarrow> dataset list" where
  "fetch_series W st_uid se_uid max_workers instance_list =
     (let fetch = (\<lambda>sop. fst (download_dicom_instance W st_uid se_uid sop))
      in if 1 < max_workers \<and> 2 \<le> length instance_list
         then successes (map snd
                (as_completed W st_uid se_uid
                   (map (\<lambda>sop. (sop, fetch sop)) (sop_uids instance_list))))
         else successes (map fetch (sop_uids instance_list)))"

definition process_series ::
  "world \<Rightarrow> string \<Rightarrow> int \<Rightarrow> DicomStudy \<Rightarrow> series_data \<Rightarrow> py_error + DicomStudy" where
  "process_series W st_uid max_workers dicom_study sd =
     (case md_series_iuid sd of
        None \<Rightarrow> Inr dicom_study
      | Some uid \<Rightarrow>
          if uid = [] then Inr dicom_study
          else (case get_sized (md_instances sd) of
                  Inl e \<Rightarrow> Inl e
                | Inr instance_list \<Rightarrow>
                    Inr (foldl DicomStudy_add_instance dicom_study
                           (fetch_series W st_uid uid max_workers instance_list))))"

definition process_study ::
  "world \<Rightarrow> int \<Rightarrow> (string \<times> DicomStudy) list \<Rightarrow> study_data
     \<Rightarrow> py_error + (string \<times> DicomStudy) list" where
  "process_study W max_workers studies sd =
     (case md_study_iuid sd of
        None \<Rightarrow> Inr studies
      | Some uid \<Rightarrow>
          if uid = [] then Inr studies
          else (case get_sized (md_series sd) of
                  Inl e \<Rightarrow> Inl e
                | Inr series_list \<Rightarrow>
                    (case fold_err (process_series W uid max_workers) (DicomStudy_init uid)
                            series_list of
                       Inl e \<Rightarrow> Inl e
                     | Inr dicom_study \<Rightarrow>
                         if series dicom_study \<noteq> []
                         then (case DicomStudy_finalize dicom_study of
                                 Inl e \<Rightarrow> Inl e
                               | Inr finalized \<Rightarrow> Inr (AList.update uid finalized studies))
                         else Inr studies)))"

text \<open>
  \<^verbatim>\<open>process_dicom_wado_study\<close> logs an exception and raises it again. The count comes
  first, so a \<^verbatim>\<open>null\<close> list raises there. The result is the dictionary of studies, in
  insertion order. The message of the \<^verbatim>\<open>ValueError\<close> is shortened: the source adds the
  list of the keys that are present.
\<close>

definition process_dicom_wado_study ::
  "world \<Rightarrow> string \<Rightarrow> int \<Rightarrow> py_error + (string \<times> DicomStudy) list" where
  "process_dicom_wado_study W study_iuid max_workers =
     (case get_dicom_wado_url W of
        Inl e \<Rightarrow> Inl e
      | Inr url \<Rightarrow>
          (case get_study_metadata W study_iuid of
             Inl e \<Rightarrow> Inl e
           | Inr md \<Rightarrow>
               (case total_instances_count md of
                  Inl e \<Rightarrow> Inl e
                | Inr n \<Rightarrow>
                    (let optimized_workers = optimize_max_workers n max_workers
                     in case md_studies md of
                          Missing \<Rightarrow>
                            Inl (ValueError ''Invalid metadata structure: missing studies key'')
                        | Null \<Rightarrow> Inl (TypeError ''NoneType object is not iterable'')
                        | Items study_list \<Rightarrow>
                            fold_err (process_study W optimized_workers) [] study_list))))"

section \<open>Pixel pipeline (image_utils.py)\<close>

text \<open>
  A PIL image: its mode, its size (width, height) and its data, one fill value or the
  pixel values. The metadata dictionary holds \<^verbatim>\<open>None\<close>, floats, integers and text.
\<close>

datatype image_data = Fill nat | Pixels "rat list"

record image =
  img_mode :: string
  img_size :: "nat \<times> nat"
  img_data :: image_data

datatype meta_value = MNone | MFloat rat | MInt int | MStr string

text \<open>
  The library functions whose result the program does not decide: \<^verbatim>\<open>np.percentile\<close> for
  one percentage, pydicom's \<^verbatim>\<open>apply_color_lut\<close> and \<^verbatim>\<open>Image.fromarray\<close> with its mode.
  Each returns a value or raises.
\<close>

record libs =
  np_percentile :: "ndarray \<Rightarrow> rat \<Rightarrow> py_error + rat"
  apply_color_lut :: "ndarray \<Rightarrow> dataset \<Rightarrow> py_error + ndarray"
  fromarray :: "ndarray \<Rightarrow> string \<Rightarrow> py_error + image"

text \<open>\<^verbatim>\<open>str\<close> of a shape tuple.\<close>

fun str_items :: "nat list \<Rightarrow> string" where
  "str_items [] = []"
| "str_items [n] = str_nat n"
| "str_items (n # ns) = str_nat n @ '', '' @ str_items ns"

definition str_shape :: "nat list \<Rightarrow> string" where
  "str_shape ns =
     (case ns of [n] \<Rightarrow> ''('' @ str_nat n @ '',)'' | _ \<Rightarrow> ''('' @ str_items ns @ '')'')"

text \<open>
  \<^verbatim>\<open>pixel_array.min()\<close> and \<^verbatim>\<open>pixel_array.max()\<close> raise \<^verbatim>\<open>ValueError\<close> on an array
  without elements.
\<close>

definition arr_min :: "ndarray \<Rightarrow> py_error + rat" where
  "arr_min a =
     (case elems a of
        [] \<Rightarrow> Inl (ValueError ''zero-size array to reduction operation minimum which has no identity'')
      | x # xs \<Rightarrow> Inr (fold min xs x))"

definition arr_max :: "ndarray \<Rightarrow> py_error + rat" where
  "arr_max a =
     (case elems a of
        [] \<Rightarrow> Inl (ValueError ''zero-size array to reduction operation maximum which has no identity'')
      | x # xs \<Rightarrow> Inr (fold max xs x))"

text \<open>
  \<^verbatim>\<open>astype(np.uint8)\<close> on one value: the fraction is cut off and the integer wraps
  modulo 256, which is numpy's cast for integers and for floats from 0 to 255.
\<close>

definition astype_uint8 :: "rat \<Rightarrow> rat" where
  "astype_uint8 x = of_int ((if x < 0 then - \<lfloor>- x\<rfloor> else \<lfloor>x\<rfloor>) mod 256)"

text \<open>
  \<^verbatim>\<open>apply_rescale\<close>. A slope or intercept that \<^verbatim>\<open>float\<close> rejects differs from the
  default, the conversion raises, and the \<^verbatim>\<open>except\<close> branch returns the array as it
  was. The product with a float has a float dtype.
\<close>

definition apply_rescale :: "ndarray \<Rightarrow> dataset \<Rightarrow> ndarray" where
  "apply_rescale a ds =
     (let slope = (case RescaleSlope ds of Some v \<Rightarrow> v | None \<Rightarrow> Parsed 1);
          intercept = (case RescaleIntercept ds of Some v \<Rightarrow> v | None \<Rightarrow> Parsed 0)
      in if slope \<noteq> Parsed 1 \<or> intercept \<noteq> Parsed 0
         then (case (slope, intercept) of
                 (Parsed s, Parsed i) \<Rightarrow>
                   a\<lparr>dtype := Float, elems := map (\<lambda>x. x * s + i) (elems a)\<rparr>
               | _ \<Rightarrow> a)
         else a)"

text \<open>
  \<^verbatim>\<open>apply_window\<close>. \<^verbatim>\<open>np.clip\<close> is the minimum with the upper bound of the maximum
  with the lower bound. Nothing in the \<^verbatim>\<open>try\<close> block raises on numbers, so its
  \<^verbatim>\<open>except\<close> branch is left out.
\<close>

definition apply_window :: "ndarray \<Rightarrow> rat \<Rightarrow> rat \<Rightarrow> ndarray" where
  "apply_window a window_center window_width =
     (let window_min = window_center - window_width / 2;
          window_max = window_center + window_width / 2
      in a\<lparr>dtype := UInt 8,
            elems := map (\<lambda>x. astype_uint8
                        (if window_max \<noteq> window_min
                         then (min window_max (max window_min x) - window_min)
                                / (window_max - window_min) * 255
                         else 128))
                       (elems a)\<rparr>)"

text \<open>
  \<^verbatim>\<open>auto_window\<close>: the \<^verbatim>\<open>try\<close> block, then the function with its \<^verbatim>\<open>except\<close> branch,
  which itself raises on an array without elements. The percentiles are floats;
  \<^verbatim>\<open>pixel_array.max()\<close> and \<^verbatim>\<open>pixel_array.min()\<close> are scalars of the dtype of the
  array, so their difference and their sum wrap around in an integer dtype. The division
  by 2 gives a float.
\<close>

definition auto_window_try :: "libs \<Rightarrow> ndarray \<Rightarrow> py_error + rat \<times> rat" where
  "auto_window_try L a =
     (case np_percentile L a 2 of
        Inl e \<Rightarrow> Inl e
      | Inr p2 \<Rightarrow>
          (case np_percentile L a 98 of
             Inl e \<Rightarrow> Inl e
           | Inr p98 \<Rightarrow>
               (let window_center = (p2 + p98) / 2;
                    window_width = p98 - p2
                in if window_width < 1
                   then (case arr_max a of
                           Inl e \<Rightarrow> Inl e
                         | Inr pixel_max \<Rightarrow>
                             (case arr_min a of
                                Inl e \<Rightarrow> Inl e
                              | Inr pixel_min \<Rightarrow>
                                  Inr (window_center, max 1 (np_sub (dtype a) pixel_max pixel_min))))
                   else Inr (window_center, window_width))))"

definition auto_window :: "libs \<Rightarrow> ndarray \<Rightarrow> py_error + rat \<times> rat" where
  "auto_window L a =
     (case auto_window_try L a of
        Inr r \<Rightarrow> Inr r
      | Inl e \<Rightarrow>
          (case arr_min a of
             Inl e' \<Rightarrow> Inl e'
           | Inr pixel_min \<Rightarrow>
               (case arr_max a of
                  Inl e' \<Rightarrow> Inl e'
                | Inr pixel_max \<Rightarrow>
                    Inr (np_add (dtype a) pixel_min pixel_max / 2,
                         max 1 (np_sub (dtype a) pixel_max pixel_min)))))"

text \<open>
  Frame extraction. \<^verbatim>\<open>pixel_array.shape[0]\<close> raises on an array without axes, and
  \<^verbatim>\<open>pixel_array[frame_index]\<close> counts a negative index from the end.
\<close>

definition take_frame :: "ndarray \<Rightarrow> int \<Rightarrow> py_error + ndarray" where
  "take_frame a frame_index =
     (case shape a of
        [] \<Rightarrow> Inl (IndexError ''tuple index out of range'')
      | n # rest \<Rightarrow>
          if int n \<le> frame_index
          then Inl (ValueError (''Frame index '' @ str_int frame_index @
                      '' out of range (max: '' @ str_int (int n - 1) @ '')''))
          else (let i = (if frame_index < 0 then frame_index + int n else frame_index);
                    len = prod_list rest
                in if i < 0 then Inl (IndexError ''index out of bounds'')
                   else Inr (a\<lparr>shape := rest,
                                elems := take len (drop (nat i * len) (elems a))\<rparr>)))"

definition select_frame :: "dataset \<Rightarrow> ndarray \<Rightarrow> int \<Rightarrow> py_error + ndarray" where
  "select_frame ds a frame_index =
     (case NumberOfFrames ds of
        None \<Rightarrow> Inr a
      | Some Unparsable \<Rightarrow> Inl (TypeError ''comparison with int not supported'')
      | Some (Parsed num_frames) \<Rightarrow>
          if 1 < num_frames then take_frame a frame_index else Inr a)"

text \<open>
  The window declared by the data set. The first values are taken, then converted in
  turn; \<^verbatim>\<open>ValueError\<close>, \<^verbatim>\<open>TypeError\<close> and \<^verbatim>\<open>IndexError\<close> are caught, and a center
  converted before the width failed stays.
\<close>

definition first_value :: "window_value \<Rightarrow> rat conv option" where
  "first_value v =
     (case v of Single x \<Rightarrow> Some x | Multi [] \<Rightarrow> None | Multi (x # xs) \<Rightarrow> Some x)"

definition window_parameters :: "dataset \<Rightarrow> rat option \<times> rat option" where
  "window_parameters ds =
     (case (WindowCenter ds, WindowWidth ds) of
        (Some wcv, Some wwv) \<Rightarrow>
          (case first_value wcv of
             None \<Rightarrow> (None, None)
           | Some wc \<Rightarrow>
               (case first_value wwv of
                  None \<Rightarrow> (None, None)
                | Some ww \<Rightarrow>
                    (case wc of
                       Unparsable \<Rightarrow> (None, None)
                     | Parsed c \<Rightarrow>
                         (case ww of
                            Unparsable \<Rightarrow> (Some c, None)
                          | Parsed w \<Rightarrow> (Some c, Some w)))))
      | _ \<Rightarrow> (None, None))"

text \<open>
  The grayscale processing, written four times in the source: rescale, the declared or
  the automatic window, windowing, the inversion for MONOCHROME1, and the image of mode
  L. It returns the image with the window used.
\<close>

definition grayscale ::
  "libs \<Rightarrow> dataset \<Rightarrow> ndarray \<Rightarrow> rat option \<Rightarrow> rat option \<Rightarrow> bool
     \<Rightarrow> py_error + image \<times> rat option \<times> rat option" where
  "grayscale L ds a window_center window_width invert =
     (let a1 = apply_rescale a ds
      in case (case (window_center, window_width) of
                 (Some c, Some w) \<Rightarrow> Inr (c, w)
               | _ \<Rightarrow> auto_window L a1) of
           Inl e \<Rightarrow> Inl e
         | Inr (c, w) \<Rightarrow>
             (let a2 = apply_window a1 c w;
                  a3 = (if invert then a2\<lparr>elems := map (\<lambda>x. 255 - x) (elems a2)\<rparr> else a2)
              in case fromarray L a3 ''L'' of
                   Inl e \<Rightarrow> Inl e
                 | Inr img \<Rightarrow> Inr (img, Some c, Some w)))"

text \<open>
  The conversion to 8 bits of the colour branches: one minimum and one maximum for the
  whole array, subtracted in the dtype of the array.
\<close>

definition convert_uint8 :: "ndarray \<Rightarrow> py_error + ndarray" where
  "convert_uint8 a =
     (if dtype a = UInt 8 then Inr a
      else (case arr_min a of
              Inl e \<Rightarrow> Inl e
            | Inr pixel_min \<Rightarrow>
                (case arr_max a of
                   Inl e \<Rightarrow> Inl e
                 | Inr pixel_max \<Rightarrow>
                     if pixel_min < pixel_max
                     then Inr (a\<lparr>dtype := UInt 8,
                                  elems := map (\<lambda>x. astype_uint8
                                              (np_sub (dtype a) x pixel_min
                                                 / np_sub (dtype a) pixel_max pixel_min * 255))
                                             (elems a)\<rparr>)
                     else Inr (a\<lparr>dtype := UInt 8, elems := map astype_uint8 (elems a)\<rparr>))))"

text \<open>YCbCr to RGB, pixel by pixel, on the three channels of the last axis.\<close>

fun ybr_to_rgb :: "rat list \<Rightarrow> rat list" where
  "ybr_to_rgb (y # cb0 # cr0 # rest) =
     (let cb = cb0 - 128; cr = cr0 - 128;
          r = y + 1402 / 1000 * cr;
          g = y - 344136 / 1000000 * cb - 714136 / 1000000 * cr;
          b = y + 1772 / 1000 * cb
      in astype_uint8 (min 255 (max 0 r)) # astype_uint8 (min 255 (max 0 g))
           # astype_uint8 (min 255 (max 0 b)) # ybr_to_rgb rest)"
| "ybr_to_rgb rest = []"

definition color_image :: "libs \<Rightarrow> string \<Rightarrow> ndarray \<Rightarrow> py_error + image" where
  "color_image L photometric a =
     (if length (shape a) \<noteq> 3 \<or> shape a ! 2 \<noteq> 3
      then Inl (ValueError (''Invalid RGB image shape: '' @ str_shape (shape a)))
      else (case convert_uint8 a of
              Inl e \<Rightarrow> Inl e
            | Inr a1 \<Rightarrow>
                if photometric = ''RGB'' then fromarray L a1 ''RGB''
                else fromarray L (a1\<lparr>dtype := UInt 8, elems := ybr_to_rgb (elems a1)\<rparr>) ''RGB''))"

text \<open>
  PALETTE COLOR. Any exception of the lookup, of the conversion or of
  \<^verbatim>\<open>Image.fromarray\<close> leads to the grayscale processing of \<^verbatim>\<open>pixel_array\<close> as it is
  at that point.
\<close>

definition palette_image ::
  "libs \<Rightarrow> dataset \<Rightarrow> ndarray \<Rightarrow> rat option \<Rightarrow> rat option
     \<Rightarrow> py_error + image \<times> rat option \<times> rat option" where
  "palette_image L ds a window_center window_width =
     (case apply_color_lut L a ds of
        Inl e \<Rightarrow> grayscale L ds a window_center window_width False
      | Inr a1 \<Rightarrow>
          (case convert_uint8 a1 of
             Inl e \<Rightarrow> grayscale L ds a1 window_center window_width False
           | Inr a2 \<Rightarrow>
               (case fromarray L a2 ''RGB'' of
                  Inl e \<Rightarrow> grayscale L ds a2 window_center window_width False
                | Inr img \<Rightarrow> Inr (img, window_center, window_width))))"

definition meta_float :: "rat option \<Rightarrow> meta_value" where
  "meta_float v = (case v of Some x \<Rightarrow> MFloat x | None \<Rightarrow> MNone)"

text \<open>
  The dispatch on the photometric interpretation: the image, and the window for the
  metadata.
\<close>

definition photometric_dispatch ::
  "libs \<Rightarrow> dataset \<Rightarrow> string \<Rightarrow> ndarray \<Rightarrow> rat option \<Rightarrow> rat option
     \<Rightarrow> py_error + image \<times> rat option \<times> rat option" where
  "photometric_dispatch L ds photometric a window_center window_width =
     (if photometric \<in> set [''MONOCHROME1'', ''MONOCHROME2'']
      then grayscale L ds a window_center window_width (photometric = ''MONOCHROME1'')
      else if photometric \<in> set [''RGB'', ''YBR_FULL'', ''YBR_FULL_422'']
      then (case color_image L photometric a of
              Inl e \<Rightarrow> Inl e
            | Inr img \<Rightarrow> Inr (img, window_center, window_width))
      else if photometric = ''PALETTE COLOR''
      then palette_image L ds a window_center window_width
      else grayscale L ds a window_center window_width False)"

text \<open>
  The \<^verbatim>\<open>try\<close> block of \<^verbatim>\<open>dicom_to_pil\<close>. The exception of \<^verbatim>\<open>decompress\<close> is caught on
  the spot; \<open>pixel_array\<close> is what the property gives afterwards.
\<close>

definition dicom_to_pil_try ::
  "libs \<Rightarrow> dataset \<Rightarrow> int \<Rightarrow> py_error + image \<times> (string \<times> meta_value) list" where
  "dicom_to_pil_try L ds frame_index =
     (case pixel_array ds of
        Inl e \<Rightarrow> Inl e
      | Inr a0 \<Rightarrow>
          (let photometric =
                 (case PhotometricInterpretation ds of Some p \<Rightarrow> p | None \<Rightarrow> ''MONOCHROME2'')
           in case select_frame ds a0 frame_index of
                Inl e \<Rightarrow> Inl e
              | Inr a \<Rightarrow>
                  (case window_parameters ds of
                     (window_center, window_width) \<Rightarrow>
                       (case photometric_dispatch L ds photometric a
                               window_center window_width of
                          Inl e \<Rightarrow> Inl e
                        | Inr (img, c, w) \<Rightarrow>
                            Inr (img,
                                 [(''window_center'', meta_float c),
                                  (''window_width'', meta_float w),
                                  (''photometric'', MStr photometric),
                                  (''frame_index'', MInt frame_index)])))))"

definition placeholder :: image where
  "placeholder = \<lparr>img_mode = ''L'', img_size = (512, 512), img_data = Fill 128\<rparr>"

definition dicom_to_pil ::
  "libs \<Rightarrow> dataset \<Rightarrow> int \<Rightarrow> image \<times> (string \<times> meta_value) list" where
  "dicom_to_pil L ds frame_index =
     (case dicom_to_pil_try L ds frame_index of
        Inr r \<Rightarrow> r
      | Inl e \<Rightarrow> (placeholder, [(''error'', MStr (err_str e))]))"

section \<open>Observations and sample data\<close>

text \<open>The instances of the series stored under an identifier, none when there is no such series.\<close>

definition series_instances :: "DicomStudy \<Rightarrow> string \<Rightarrow> dataset list" where
  "series_instances st uid = (case map_of (series st) uid of None \<Rightarrow> [] | Some s \<Rightarrow> instances s)"

text \<open>Every series of a study holds an instance.\<close>

definition no_empty_series :: "DicomStudy \<Rightarrow> bool" where
  "no_empty_series st = list_all (\<lambda>(uid, s). instances s \<noteq> []) (series st)"

text \<open>An entry of the result dictionary: a study with a series and without an empty one.\<close>

definition good_study :: "string \<times> DicomStudy \<Rightarrow> bool" where
  "good_study p = (series (snd p) \<noteq> [] \<and> no_empty_series (snd p))"



text \<open>
  The first text that is not empty among the values of an attribute, in arrival order
  (\<open>None\<close>: the instance does not carry the attribute); empty when there is none.
\<close>

fun first_nonempty :: "string option list \<Rightarrow> string" where
  "first_nonempty [] = []"
| "first_nonempty (None # r) = first_nonempty r"
| "first_nonempty (Some v # r) = (if v = [] then first_nonempty r else v)"

text \<open>
  A data set with one element and none of the attributes the program reads, and the same
  as \<^verbatim>\<open>dcmread\<close> gives it: \<^verbatim>\<open>filename\<close> is there and is \<^verbatim>\<open>None\<close>.
\<close>

definition bare_dataset :: dataset where
  "bare_dataset =
     \<lparr>obj_id = 0, n_elements = 1, filename = None, ImagePositionPatient = None,
      InstanceNumber = None, Modality = None, SeriesInstanceUID = None,
      SeriesDescription = None, PatientName = None, PatientID = None, StudyDate = None,
      AccessionNumber = None, StudyDescription = None,
      pixel_array = Inl (LibraryError ''no pixel data''),
      PhotometricInterpretation = None, NumberOfFrames = None, WindowCenter = None,
      WindowWidth = None, RescaleSlope = None, RescaleIntercept = None\<rparr>"

definition read_dataset :: dataset where
  "read_dataset = bare_dataset\<lparr>filename := Some PyNone\<rparr>"

section \<open>Sample servers\<close>

text \<open>
  A metadata tree: one study with a series of three instances and a series of none.
\<close>

definition sample_studies :: "study_data list" where
  "sample_studies =
     [\<lparr>md_study_iuid = Some ''1.2'',
       md_series = Items
         [\<lparr>md_series_iuid = Some ''1.2.1'',
           md_instances = Items [Some ''a'', Some ''b'', Some ''c'']\<rparr>,
          \<lparr>md_series_iuid = Some ''1.2.2'', md_instances = Items []\<rparr>]\<rparr>]"

definition sample_metadata :: metadata where
  "sample_metadata = \<lparr>md_studies = Items sample_studies\<rparr>"

text \<open>
  The data set that the sample server holds under an object identifier: read from the
  bytes of a response, with the code of the first character of the identifier as its
  identity and as its instance number.
\<close>

definition sample_instance :: "string \<Rightarrow> dataset" where
  "sample_instance sop =
     read_dataset\<lparr>obj_id := of_char (hd sop),
                   InstanceNumber := Some (Parsed (int (of_char (hd sop))))\<rparr>"

text \<open>
  A server that answers every request: the body of an instance is its object identifier, the
  instance b does not decode, and the pool yields its futures in reverse order.
\<close>

definition sample_world :: world where
  "sample_world =
     \<lparr>DICOM_WADO_URL = Some ''http://pacs/wado/'',
      urlopen = (\<lambda>req. case map_of (req_query req) ''objectUID'' of
                         Some sop \<Rightarrow> Inr \<lparr>status = 200, body = sop\<rparr>
                       | None \<Rightarrow> Inr \<lparr>status = 200, body = ''{}''\<rparr>),
      json_loads = (\<lambda>content. Inr sample_metadata),
      dcmread = (\<lambda>data. if data = ''b'' then Inl (LibraryError ''not a DICOM file'')
                         else Inr (sample_instance data)),
      as_completed = (\<lambda>st_uid se_uid. rev)\<rparr>"

text \<open>
  The same server, refusing every instance request.
\<close>

definition offline_world :: world where
  "offline_world =
     sample_world\<lparr>urlopen := (\<lambda>req. case map_of (req_query req) ''objectUID'' of
                         Some sop \<Rightarrow> Inl (HTTPError 404 ''Not Found'')
                       | None \<Rightarrow> Inr \<lparr>status = 200, body = ''{}''\<rparr>)\<rparr>"

text \<open>
  What the sample server's study becomes: the instances a and c arrive as c, a and are
  sorted by instance number.
\<close>

definition sample_result :: "(string \<times> DicomStudy) list" where
  "sample_result =
     [(''1.2'',
       \<lparr>study_uid = ''1.2'',
        series = [(''UNKNOWN'',
                   \<lparr>series_uid = ''UNKNOWN'', series_description = [],
                    instances = [sample_instance ''a'', sample_instance ''c''],
                    modality = []\<rparr>)],
        patient_name = [], patient_id = [], study_date = [], accession_number = [],
        study_description = []\<rparr>)]"





text \<open>
  No \<^verbatim>\<open>DICOM_WADO_URL\<close> in the environment.
\<close>

definition unconfigured_world :: world where
  "unconfigured_world = sample_world\<lparr>DICOM_WADO_URL := None\<rparr>"

text \<open>
  A server that answers with status 204.
\<close>

definition no_content_world :: world where
  "no_content_world = sample_world\<lparr>urlopen := (\<lambda>req. Inr \<lparr>status = 204, body = []\<rparr>)\<rparr>"

section \<open>Sample images\<close>

text \<open>
  numpy's default percentile: linear interpolation between the two nearest ranks of the
  sorted values, in exact arithmetic. It serves as the sample library only.
\<close>

definition percentile_linear :: "ndarray \<Rightarrow> rat \<Rightarrow> py_error + rat" where
  "percentile_linear a q =
     (if elems a = [] then Inl (IndexError ''index -1 is out of bounds for axis 0 with size 0'')
      else (let s = sort (elems a);
                h = (of_nat (length s) - 1) * q / 100;
                lo = nat \<lfloor>h\<rfloor>;
                hi = min (lo + 1) (length s - 1)
            in Inr (s ! lo + (h - of_int \<lfloor>h\<rfloor>) * (s ! hi - s ! lo))))"

text \<open>
  A sample library: that percentile, no palette, and images that keep the array's values.
\<close>

definition sample_libs :: libs where
  "sample_libs =
     \<lparr>np_percentile = percentile_linear,
      apply_color_lut = (\<lambda>a ds. Inl (LibraryError ''no palette'')),
      fromarray = (\<lambda>a m. Inr \<lparr>img_mode = m,
                               img_size = (case shape a of h # w # r \<Rightarrow> (w, h) | _ \<Rightarrow> (0, 0)),
                               img_data = Pixels (elems a)\<rparr>)\<rparr>"

text \<open>
  Sample arrays and data sets: a ramp, an array that is nearly constant, 51 signed 16-bit
  pixels that are 0 but for the least and the greatest value of the dtype, a declared
  single frame with a declared window, and two frames of one pixel.
\<close>

definition ramp :: ndarray where
  "ramp = \<lparr>shape = [11], dtype = Float,
            elems = [0, 10, 20, 30, 40, 50, 60, 70, 80, 90, 100]\<rparr>"

definition flat :: ndarray where
  "flat = \<lparr>shape = [2, 2], dtype = Float, elems = [7, 7, 7, 161 / 20]\<rparr>"

definition spiked :: ndarray where
  "spiked = \<lparr>shape = [3, 17], dtype = SInt 16, elems = - 32768 # replicate 49 0 @ [32767]\<rparr>"

definition gray_pixels :: ndarray where
  "gray_pixels = \<lparr>shape = [2, 2], dtype = Float, elems = [0, 100, 200, 300]\<rparr>"

definition single_frame :: dataset where
  "single_frame =
     bare_dataset\<lparr>pixel_array := Inr gray_pixels, NumberOfFrames := Some (Parsed 1),
                   WindowCenter := Some (Single (Parsed 150)),
                   WindowWidth := Some (Single (Parsed 300))\<rparr>"

definition cine :: dataset where
  "cine =
     bare_dataset\<lparr>pixel_array := Inr \<lparr>shape = [2, 1, 1], dtype = Float, elems = [10, 20]\<rparr>,
                   NumberOfFrames := Some (Parsed 2)\<rparr>"

section \<open>Lemmas about series and studies\<close>

lemma instances_add: "instances (DicomSeries_add_instance s ds) = instances s @ [ds]"
  by (simp add: DicomSeries_add_instance_def Let_def split: option.split)


lemma fold_err_invariant:
  assumes step: "\<And>acc x acc'. P acc \<Longrightarrow> f acc x = Inr acc' \<Longrightarrow> P acc'"
  shows "P acc \<Longrightarrow> fold_err f acc xs = Inr r \<Longrightarrow> P r"
proof (induction xs arbitrary: acc)
  case Nil
  then show ?case by simp
next
  case (Cons x xs)
  from Cons.prems(2) obtain acc' where a: "f acc x = Inr acc'" and r: "fold_err f acc' xs = Inr r"
    by (auto split: sum.splits)
  from step [OF Cons.prems(1) a] r show ?case by (rule Cons.IH)
qed


lemma sort_raises_set:
  "sort_raises xs \<longleftrightarrow> (\<exists>x\<in>set xs. \<exists>y\<in>set xs. isl (py_lt (sort_key_ds x) (sort_key_ds y)))"
  by (simp add: sort_raises_def list_ex_iff)


lemma sort_raises_subset: "set ys \<subseteq> set xs \<Longrightarrow> sort_raises ys \<Longrightarrow> sort_raises xs"
  by (auto simp add: sort_raises_set)






lemma sort_instances_isl: "isl (DicomSeries_sort_instances s) \<longleftrightarrow> sort_raises (instances s)"
  by (simp add: DicomSeries_sort_instances_def)

lemma sort_all_isl: "isl (sort_all ser) \<longleftrightarrow> (\<exists>p\<in>set ser. sort_raises (instances (snd p)))"
proof (induction ser)
  case Nil
  show ?case by simp
next
  case (Cons p rest)
  obtain uid s where p: "p = (uid, s)" by (cases p)
  show ?case
  proof (cases "sort_raises (instances s)")
    case True
    then show ?thesis by (simp add: p DicomSeries_sort_instances_def)
  next
    case False
    with Cons.IH show ?thesis
      by (cases "sort_all rest") (simp_all add: p DicomSeries_sort_instances_def)
  qed
qed

lemma sort_all_Inr:
  "sort_all ser = Inr ser' \<longleftrightarrow>
     (\<forall>p\<in>set ser. \<not> sort_raises (instances (snd p)))
     \<and> ser' = map (\<lambda>(uid, s). (uid, s\<lparr>instances := sort_key sort_rank (instances s)\<rparr>)) ser"
proof (induction ser arbitrary: ser')
  case Nil
  show ?case by auto
next
  case (Cons p rest)
  obtain uid s where p: "p = (uid, s)" by (cases p)
  show ?case
  proof (cases "sort_raises (instances s)")
    case True
    then show ?thesis by (simp add: p DicomSeries_sort_instances_def)
  next
    case False
    show ?thesis
    proof (cases "sort_all rest")
      case (Inl e)
      then have "isl (sort_all rest)" by simp
      then have "\<exists>q\<in>set rest. sort_raises (instances (snd q))" by (simp only: sort_all_isl)
      with Inl False show ?thesis by (auto simp add: p DicomSeries_sort_instances_def)
    next
      case (Inr r)
      with Cons.IH [of r] False show ?thesis
        by (auto simp add: p DicomSeries_sort_instances_def)
    qed
  qed
qed

lemma finalize_Inr:
  "DicomStudy_finalize st = Inr st' \<longleftrightarrow>
     (\<forall>p\<in>set (series st). \<not> sort_raises (instances (snd p)))
     \<and> st' = st\<lparr>series := map (\<lambda>(uid, s). (uid, s\<lparr>instances := sort_key sort_rank (instances s)\<rparr>))
                               (series st)\<rparr>"
proof (cases "sort_all (series st)")
  case (Inl e)
  then have "isl (sort_all (series st))" by simp
  then have "\<exists>q\<in>set (series st). sort_raises (instances (snd q))" by (simp only: sort_all_isl)
  with Inl show ?thesis by (auto simp add: DicomStudy_finalize_def)
next
  case (Inr r)
  with sort_all_Inr [of "series st" r] show ?thesis
    by (auto simp add: DicomStudy_finalize_def)
qed


lemma map_of_finalize:
  "DicomStudy_finalize st = Inr st' \<Longrightarrow>
   map_of (series st') uid
     = map_option (\<lambda>s. s\<lparr>instances := sort_key sort_rank (instances s)\<rparr>) (map_of (series st) uid)"
  by (simp add: finalize_Inr map_of_map)

lemma series_instances_finalize:
  "DicomStudy_finalize st = Inr st' \<Longrightarrow>
   series_instances st' uid = sort_key sort_rank (series_instances st uid)"
  by (simp add: series_instances_def map_of_finalize split: option.split)


lemma map_of_add:
  "map_of (series (DicomStudy_add_instance st ds)) uid =
     (if uid = routing_key ds
      then Some (DicomSeries_add_instance
             (case map_of (series st) uid of
                None \<Rightarrow> DicomSeries_init uid (case SeriesDescription ds of Some d \<Rightarrow> d | None \<Rightarrow> [])
              | Some s \<Rightarrow> s) ds)
      else map_of (series st) uid)"
  by (auto simp add: DicomStudy_add_instance_def Let_def map_of_map_entry map_add_def split: option.split)

lemma series_instances_add:
  "series_instances (DicomStudy_add_instance st ds) uid =
     series_instances st uid @ (if routing_key ds = uid then [ds] else [])"
  by (auto simp add: series_instances_def map_of_add instances_add DicomSeries_init_def split: option.split)

lemma series_instances_init: "series_instances (DicomStudy_init su) uid = []"
  by (simp add: series_instances_def DicomStudy_init_def)

lemma series_instances_foldl:
  "series_instances (foldl DicomStudy_add_instance st xs) uid =
     series_instances st uid @ filter (\<lambda>d. routing_key d = uid) xs"
  by (induction xs arbitrary: st) (simp_all add: series_instances_add)

lemma dom_add:
  "dom (map_of (series (DicomStudy_add_instance st ds))) = insert (routing_key ds) (dom (map_of (series st)))"
  by (auto simp add: map_of_add dom_def)

lemma dom_foldl:
  "dom (map_of (series (foldl DicomStudy_add_instance st xs))) = dom (map_of (series st)) \<union> routing_key ` set xs"
  by (induction xs arbitrary: st) (auto simp add: dom_add)

lemma map_entry_append_new:
  "map_of xs k = None \<Longrightarrow> AList.map_entry k f (xs @ [(k, v)]) = xs @ [(k, f v)]"
  by (induction xs) (auto split: if_splits)

lemma list_all_map_entry:
  "list_all (\<lambda>(uid, s). instances s \<noteq> []) xs \<Longrightarrow>
   list_all (\<lambda>(uid, s). instances s \<noteq> []) (AList.map_entry k (\<lambda>s. DicomSeries_add_instance s ds) xs)"
  by (induction xs) (auto simp add: instances_add)

lemma no_empty_series_add:
  "no_empty_series st \<Longrightarrow> no_empty_series (DicomStudy_add_instance st ds)"
  by (auto simp add: no_empty_series_def DicomStudy_add_instance_def Let_def
      map_entry_append_new list_all_map_entry instances_add)

lemma no_empty_series_foldl:
  "no_empty_series st \<Longrightarrow> no_empty_series (foldl DicomStudy_add_instance st xs)"
  by (induction xs arbitrary: st) (simp_all add: no_empty_series_add)

lemma no_empty_series_init: "no_empty_series (DicomStudy_init u)"
  by (simp add: no_empty_series_def DicomStudy_init_def)

lemma sort_key_eq_Nil: "sort_key f xs = [] \<longleftrightarrow> xs = []"
  by (metis length_0_conv length_sort)


lemma no_empty_series_finalize:
  "no_empty_series st \<Longrightarrow> DicomStudy_finalize st = Inr st' \<Longrightarrow> no_empty_series st'"
  by (auto simp add: no_empty_series_def finalize_Inr list_all_iff sort_key_eq_Nil)

lemma series_finalize_nonempty:
  "DicomStudy_finalize st = Inr st' \<Longrightarrow> (series st' \<noteq> []) = (series st \<noteq> [])"
  by (simp add: finalize_Inr)

lemma no_empty_process_series:
  "no_empty_series st \<Longrightarrow> process_series W u mw st sd = Inr st' \<Longrightarrow> no_empty_series st'"
  by (auto simp add: process_series_def no_empty_series_foldl split: option.splits sum.splits if_splits)

lemma no_empty_fold_process_series:
  "no_empty_series st \<Longrightarrow> fold_err (process_series W u mw) st sds = Inr st' \<Longrightarrow> no_empty_series st'"
  by (rule fold_err_invariant [where P = no_empty_series and f = "process_series W u mw"])
     (rule no_empty_process_series)

lemma list_all_update:
  "list_all P xs \<Longrightarrow> P (k, v) \<Longrightarrow> list_all P (AList.update k v xs)"
  by (induction xs) auto

lemma good_process_study:
  assumes "list_all good_study studies" and "process_study W mw studies sd = Inr studies'"
  shows "list_all good_study studies'"
proof (cases "md_study_iuid sd")
  case None
  with assms show ?thesis by (simp add: process_study_def)
next
  case (Some uid)
  show ?thesis
  proof (cases "uid = []")
    case True
    with Some assms show ?thesis by (simp add: process_study_def)
  next
    case False
    with Some assms(2) obtain series_list dicom_study
      where f: "fold_err (process_series W uid mw) (DicomStudy_init uid) series_list = Inr dicom_study"
        and r: "(if series dicom_study \<noteq> []
                 then (case DicomStudy_finalize dicom_study of
                         Inl e \<Rightarrow> Inl e
                       | Inr finalized \<Rightarrow> Inr (AList.update uid finalized studies))
                 else Inr studies) = Inr studies'"
      by (auto simp add: process_study_def split: sum.splits)
    from no_empty_series_init f have ne: "no_empty_series dicom_study"
      by (rule no_empty_fold_process_series)
    show ?thesis
    proof (cases "series dicom_study = []")
      case True
      with r assms(1) show ?thesis by simp
    next
      case False
      with r obtain finalized where fin: "DicomStudy_finalize dicom_study = Inr finalized"
        and s: "studies' = AList.update uid finalized studies"
        by (auto split: sum.splits)
      from ne fin have "no_empty_series finalized" by (rule no_empty_series_finalize)
      moreover from fin False have "series finalized \<noteq> []" by (simp add: series_finalize_nonempty)
      ultimately have "good_study (uid, finalized)" by (simp add: good_study_def)
      with assms(1) show ?thesis unfolding s by (rule list_all_update)
    qed
  qed
qed

lemma good_fold_process_study:
  "list_all good_study studies \<Longrightarrow> fold_err (process_study W mw) studies sl = Inr studies'
   \<Longrightarrow> list_all good_study studies'"
  by (rule fold_err_invariant [where P = "list_all good_study" and f = "process_study W mw"])
     (rule good_process_study)

lemma process_no_empty:
  "process_dicom_wado_study W sid mw = Inr studies \<Longrightarrow> list_all good_study studies"
  by (auto simp add: process_dicom_wado_study_def Let_def
      intro: good_fold_process_study [where studies = "[]"]
      split: sum.splits field.splits)

lemma map_fst_map_entry: "map fst (AList.map_entry k f xs) = map fst xs"
  by (induction xs) auto

lemma keys_add:
  "map fst (series (DicomStudy_add_instance st ds)) =
     (if map_of (series st) (routing_key ds) = None then map fst (series st) @ [routing_key ds]
      else map fst (series st))"
  by (simp add: DicomStudy_add_instance_def Let_def map_entry_append_new map_fst_map_entry)

lemma distinct_keys_add:
  "distinct (map fst (series st)) \<Longrightarrow> distinct (map fst (series (DicomStudy_add_instance st ds)))"
  by (auto simp add: keys_add map_of_eq_None_iff)

lemma distinct_keys_foldl:
  "distinct (map fst (series st)) \<Longrightarrow> distinct (map fst (series (foldl DicomStudy_add_instance st xs)))"
  by (induction xs arbitrary: st) (simp_all add: distinct_keys_add)

lemma first_write_kept: "f \<noteq> [] \<Longrightarrow> foldl first_write f vs = f"
  by (induction vs) (simp_all add: first_write_def split: option.split)

lemma first_write_simps:
  "first_write f None = f" "first_write f (Some v) = (if f = [] then v else f)"
  by (simp_all add: first_write_def)

lemma first_write_empty: "foldl first_write [] vs = first_nonempty vs"
  by (induction vs rule: first_nonempty.induct) (simp_all add: first_write_simps first_write_kept)

lemma first_write_foldl:
  "foldl first_write f vs = (if f \<noteq> [] then f else first_nonempty vs)"
  by (simp add: first_write_kept first_write_empty)

lemma patient_name_foldl:
  "patient_name (foldl DicomStudy_add_instance st xs) = foldl first_write (patient_name st) (map PatientName xs)"
  by (induction xs arbitrary: st) (simp_all add: DicomStudy_add_instance_def Let_def)

lemma patient_id_foldl:
  "patient_id (foldl DicomStudy_add_instance st xs) = foldl first_write (patient_id st) (map PatientID xs)"
  by (induction xs arbitrary: st) (simp_all add: DicomStudy_add_instance_def Let_def)

lemma study_date_foldl:
  "study_date (foldl DicomStudy_add_instance st xs) = foldl first_write (study_date st) (map StudyDate xs)"
  by (induction xs arbitrary: st) (simp_all add: DicomStudy_add_instance_def Let_def)

lemma accession_number_foldl:
  "accession_number (foldl DicomStudy_add_instance st xs) = foldl first_write (accession_number st) (map AccessionNumber xs)"
  by (induction xs arbitrary: st) (simp_all add: DicomStudy_add_instance_def Let_def)

lemma study_description_foldl:
  "study_description (foldl DicomStudy_add_instance st xs) = foldl first_write (study_description st) (map StudyDescription xs)"
  by (induction xs arbitrary: st) (simp_all add: DicomStudy_add_instance_def Let_def)

lemma routing_unknown: "SeriesInstanceUID ds = None \<Longrightarrow> routing_key ds = ''UNKNOWN''"
  by (simp add: routing_key_def)

lemma keys_set_foldl:
  "set (map fst (series (foldl DicomStudy_add_instance st xs))) = set (map fst (series st)) \<union> routing_key ` set xs"
  using dom_foldl [of st xs] by (simp add: dom_map_of_conv_image_fst)

lemma distinct_singleton:
  assumes "distinct ys" and "set ys = {a}"
  shows "ys = [a]"
proof (cases ys)
  case Nil
  with assms(2) show ?thesis by simp
next
  case (Cons y r)
  with assms(2) have y: "y = a" and sub: "set r \<subseteq> {a}" by auto
  from Cons assms(1) y have "a \<notin> set r" by simp
  with sub have "r = []" by (cases r) auto
  with Cons y show ?thesis by simp
qed

lemma unknown_bucket:
  assumes "\<forall>d\<in>set xs. SeriesInstanceUID d = None" and "xs \<noteq> []"
  shows "map fst (series (foldl DicomStudy_add_instance (DicomStudy_init u) xs)) = [''UNKNOWN'']"
proof (rule distinct_singleton)
  show "distinct (map fst (series (foldl DicomStudy_add_instance (DicomStudy_init u) xs)))"
    by (rule distinct_keys_foldl) (simp add: DicomStudy_init_def)
  from assms(2) obtain x where x: "x \<in> set xs" by (cases xs) auto
  from assms(1) have all: "\<And>d. d \<in> set xs \<Longrightarrow> routing_key d = ''UNKNOWN''"
    by (simp add: routing_unknown)
  from x all have "routing_key ` set xs = {''UNKNOWN''}"
    by (auto simp add: image_iff)
  then show "set (map fst (series (foldl DicomStudy_add_instance (DicomStudy_init u) xs))) = {''UNKNOWN''}"
    by (simp only: keys_set_foldl) (simp add: DicomStudy_init_def)
qed

lemma series_uid_add: "series_uid (DicomSeries_add_instance s ds) = series_uid s"
  by (simp add: DicomSeries_add_instance_def Let_def split: option.split)

lemma keys_match_map_entry:
  "list_all (\<lambda>(k, s). series_uid s = k) xs \<Longrightarrow>
   list_all (\<lambda>(k, s). series_uid s = k)
     (AList.map_entry k' (\<lambda>s. DicomSeries_add_instance s ds) xs)"
  by (induction xs) (auto simp add: series_uid_add)

lemma keys_match_add:
  "list_all (\<lambda>(k, s). series_uid s = k) (series st) \<Longrightarrow>
   list_all (\<lambda>(k, s). series_uid s = k) (series (DicomStudy_add_instance st ds))"
  by (auto simp add: DicomStudy_add_instance_def Let_def map_entry_append_new
      keys_match_map_entry series_uid_add DicomSeries_init_def)

lemma keys_match_foldl:
  "list_all (\<lambda>(k, s). series_uid s = k) (series st) \<Longrightarrow>
   list_all (\<lambda>(k, s). series_uid s = k) (series (foldl DicomStudy_add_instance st xs))"
  by (induction xs arbitrary: st) (simp_all add: keys_match_add)

lemma keys_match_init:
  "list_all (\<lambda>(k, s). series_uid s = k) (series (foldl DicomStudy_add_instance (DicomStudy_init u) xs))"
  by (rule keys_match_foldl) (simp add: DicomStudy_init_def)










section \<open>Lemmas about the retrieval scheduler\<close>

lemma sample_url: "get_dicom_wado_url sample_world = Inr ''http://pacs/wado/''"
  by (simp add: get_dicom_wado_url_def sample_world_def strip_space_def strip_def rstrip_def
      is_space_def is_cont_def Let_def)

lemma offline_url: "get_dicom_wado_url offline_world = Inr ''http://pacs/wado/''"
  by (simp add: get_dicom_wado_url_def offline_world_def sample_world_def strip_space_def strip_def
      rstrip_def is_space_def is_cont_def Let_def)

lemma sample_get_metadata: "get_study_metadata sample_world sid = Inr sample_metadata"
  by (simp add: get_study_metadata_def sample_url metadata_request_def) (simp add: sample_world_def)


lemma sample_download:
  "download_dicom_instance sample_world su se sop =
     (if sop = ''b''
      then (None, [instance_request ''http://pacs/wado/'' su se sop],
            [''Failed to download instance '' @ sop @ '': not a DICOM file''])
      else (Some (sample_instance sop),
            [instance_request ''http://pacs/wado/'' su se sop], []))"
  by (simp add: download_dicom_instance_def download_attempt_def sample_url Let_def)
     (simp add: sample_world_def instance_request_def)


lemma sample_total: "total_instances_count sample_metadata = Inr 3"
  by (simp add: total_instances_count_def sample_metadata_def sample_studies_def get_iter_def
      get_sized_def count_study_def count_series_def)

lemma fetch_series_Nil: "fetch_series W su se mw [] = []"
  by (simp add: fetch_series_def sop_uids_def successes_def List.map_filter_simps)

lemma bare_sel:
  "n_elements bare_dataset = 1" "filename bare_dataset = None" "obj_id bare_dataset = 0"
  "ImagePositionPatient bare_dataset = None" "InstanceNumber bare_dataset = None"
  "Modality bare_dataset = None" "SeriesInstanceUID bare_dataset = None"
  "SeriesDescription bare_dataset = None" "PatientName bare_dataset = None"
  "PatientID bare_dataset = None" "StudyDate bare_dataset = None"
  "AccessionNumber bare_dataset = None" "StudyDescription bare_dataset = None"
  by (simp_all add: bare_dataset_def)

lemma read_sel:
  "n_elements read_dataset = 1" "filename read_dataset = Some PyNone" "obj_id read_dataset = 0"
  "ImagePositionPatient read_dataset = None" "InstanceNumber read_dataset = None"
  "Modality read_dataset = None" "SeriesInstanceUID read_dataset = None"
  "SeriesDescription read_dataset = None" "PatientName read_dataset = None"
  "PatientID read_dataset = None" "StudyDate read_dataset = None"
  "AccessionNumber read_dataset = None" "StudyDescription read_dataset = None"
  by (simp_all add: read_dataset_def bare_sel)

lemma sample_sel:
  "n_elements (sample_instance sop) = 1" "filename (sample_instance sop) = Some PyNone"
  "obj_id (sample_instance sop) = of_char (hd sop)"
  "ImagePositionPatient (sample_instance sop) = None"
  "InstanceNumber (sample_instance sop) = Some (Parsed (int (of_char (hd sop))))"
  "Modality (sample_instance sop) = None" "SeriesInstanceUID (sample_instance sop) = None"
  "SeriesDescription (sample_instance sop) = None" "PatientName (sample_instance sop) = None"
  "PatientID (sample_instance sop) = None" "StudyDate (sample_instance sop) = None"
  "AccessionNumber (sample_instance sop) = None" "StudyDescription (sample_instance sop) = None"
  by (simp_all add: sample_instance_def read_sel)

lemma sample_fetch:
  "fetch_series sample_world ''1.2'' ''1.2.1'' 2 [Some ''a'', Some ''b'', Some ''c'']
     = [sample_instance ''c'', sample_instance ''a'']"
  by (simp add: fetch_series_def sample_download sop_uids_def List.map_filter_simps successes_def Let_def)
     (simp add: sample_world_def sample_sel List.map_filter_simps)

lemma sample_keys:
  "sort_key_ds (sample_instance ''a'') = (0, 97, PyNone)"
  "sort_key_ds (sample_instance ''c'') = (0, 99, PyNone)"
  "sort_rank (sample_instance ''a'') = (0, 97, [])"
  "sort_rank (sample_instance ''c'') = (0, 99, [])"
  by (simp_all add: sort_key_ds_def sort_rank_def z_pos_def instance_num_def filename_key_def
      text_rank_def sample_sel)

lemma sample_process: "process_dicom_wado_study sample_world ''1.2'' 4 = Inr sample_result"
  apply (simp add: process_dicom_wado_study_def sample_url sample_get_metadata sample_total
      optimize_max_workers_def Let_def)
  apply (simp add: sample_metadata_def sample_studies_def process_study_def process_series_def
      get_sized_def sample_fetch fetch_series_Nil Let_def)
  apply (simp add: DicomStudy_add_instance_def DicomStudy_init_def DicomSeries_init_def
      DicomSeries_add_instance_def routing_key_def first_write_def Let_def
      DicomStudy_finalize_def DicomSeries_sort_instances_def sample_result_def sample_sel
      sort_raises_def sample_keys)
  done

















lemma no_content_url: "get_dicom_wado_url no_content_world = Inr ''http://pacs/wado/''"
  by (simp add: get_dicom_wado_url_def no_content_world_def sample_world_def strip_space_def strip_def
      rstrip_def is_space_def is_cont_def Let_def)

lemma unconfigured_url:
  "get_dicom_wado_url unconfigured_world
     = Inl (ValueError ''DICOM_WADO_URL environment variable not configured or empty'')"
  by (simp add: get_dicom_wado_url_def unconfigured_world_def sample_world_def strip_space_def strip_def
      rstrip_def Let_def)




section \<open>Lemmas about the pixel pipeline\<close>

lemma arr_min_Min: "elems a \<noteq> [] \<Longrightarrow> arr_min a = Inr (Min (set (elems a)))"
proof (cases "elems a")
  case Nil
  moreover assume "elems a \<noteq> []"
  ultimately show ?thesis by simp
next
  case (Cons x xs)
  with Min.set_eq_fold [of x xs] show ?thesis by (simp add: arr_min_def)
qed

lemma arr_max_Max: "elems a \<noteq> [] \<Longrightarrow> arr_max a = Inr (Max (set (elems a)))"
proof (cases "elems a")
  case Nil
  moreover assume "elems a \<noteq> []"
  ultimately show ?thesis by simp
next
  case (Cons x xs)
  with Max.set_eq_fold [of x xs] show ?thesis by (simp add: arr_max_def)
qed

lemma auto_window_try_width: "auto_window_try L a = Inr (c, w) \<Longrightarrow> 1 \<le> w"
  by (auto simp add: auto_window_try_def Let_def split: sum.splits if_splits)

lemma auto_window_width: "auto_window L a = Inr (c, w) \<Longrightarrow> 1 \<le> w"
  by (auto simp add: auto_window_def dest: auto_window_try_width split: sum.splits)

lemma dicom_to_pil_try_metadata:
  assumes "dicom_to_pil_try L ds i = Inr (img, md)"
  shows "\<exists>c w. md = [(''window_center'', meta_float c), (''window_width'', meta_float w),
           (''photometric'', MStr (case PhotometricInterpretation ds of Some p \<Rightarrow> p | None \<Rightarrow> ''MONOCHROME2'')),
           (''frame_index'', MInt i)]"
  using assms
  by (auto simp add: dicom_to_pil_try_def Let_def split: sum.splits prod.splits if_splits)

lemma ramp_percentiles:
  "np_percentile sample_libs ramp 2 = Inr 2" "np_percentile sample_libs ramp 98 = Inr 98"
  by code_simp+

lemma flat_percentiles:
  "np_percentile sample_libs flat 2 = Inr 7"
  "np_percentile sample_libs flat 98 = Inr (7987 / 1000)"
  by code_simp+

lemma single_frame_try:
  "dicom_to_pil_try sample_libs single_frame i
     = Inr (\<lparr>img_mode = ''L'', img_size = (2, 2), img_data = Pixels [0, 85, 170, 255]\<rparr>,
            [(''window_center'', MFloat 150), (''window_width'', MFloat 300),
             (''photometric'', MStr ''MONOCHROME2''), (''frame_index'', MInt i)])"
  by (simp add: dicom_to_pil_try_def photometric_dispatch_def single_frame_def bare_dataset_def select_frame_def
      window_parameters_def first_value_def grayscale_def apply_rescale_def apply_window_def
      gray_pixels_def sample_libs_def astype_uint8_def meta_float_def Let_def)

lemma np_sub_Float: "np_sub Float x y = x - y"
  by (simp add: np_sub_def wrap_def)

lemma auto_window_wrapped:
  assumes "np_percentile L a 2 = Inr p2" and "np_percentile L a 98 = Inr p98"
  shows "(1 \<le> p98 - p2 \<longrightarrow> auto_window L a = Inr ((p2 + p98) / 2, p98 - p2))
       \<and> (p98 - p2 < 1 \<and> elems a \<noteq> [] \<longrightarrow>
            auto_window L a
              = Inr ((p2 + p98) / 2,
                     max 1 (np_sub (dtype a) (Max (set (elems a))) (Min (set (elems a))))))
       \<and> (auto_window L a = Inr (c, w) \<longrightarrow> 1 \<le> w)"
proof (intro conjI impI)
  assume "1 \<le> p98 - p2"
  with assms show "auto_window L a = Inr ((p2 + p98) / 2, p98 - p2)"
    by (simp add: auto_window_def auto_window_try_def Let_def)
next
  assume "p98 - p2 < 1 \<and> elems a \<noteq> []"
  with assms show "auto_window L a
      = Inr ((p2 + p98) / 2, max 1 (np_sub (dtype a) (Max (set (elems a))) (Min (set (elems a)))))"
    by (simp add: auto_window_def auto_window_try_def Let_def arr_min_Min arr_max_Max)
next
  assume "auto_window L a = Inr (c, w)"
  then show "1 \<le> w" by (rule auto_window_width)
qed

section \<open>Worker policy table\<close>

text \<open>
  C3. For every instance count of at least 1 and every requested worker count,
  \<^const>\<open>optimize_max_workers\<close> returns 1 for counts up to 2, the smaller of 2 and the
  request for counts 3 to 10, the smaller of 4 and the request for counts 11 to 50, and
  the smaller of 8 and the request above 50.
\<close>

theorem optimize_max_workers_table:
  assumes "1 \<le> t"
  shows "(t \<le> 2 \<longrightarrow> optimize_max_workers t r = 1)
       \<and> (3 \<le> t \<and> t \<le> 10 \<longrightarrow> optimize_max_workers t r = min 2 r)
       \<and> (11 \<le> t \<and> t \<le> 50 \<longrightarrow> optimize_max_workers t r = min 4 r)
       \<and> (50 < t \<longrightarrow> optimize_max_workers t r = min 8 r)"
  using assms by (simp add: optimize_max_workers_def)

theorem optimize_max_workers_table_witness:
  "optimize_max_workers 2 16 = 1 \<and> optimize_max_workers 7 16 = 2
   \<and> optimize_max_workers 7 1 = 1 \<and> optimize_max_workers 50 16 = 4
   \<and> optimize_max_workers 51 16 = 8 \<and> optimize_max_workers 51 4 = 4"
  using optimize_max_workers_table [of 2 16] optimize_max_workers_table [of 7 16]
    optimize_max_workers_table [of 7 1] optimize_max_workers_table [of 50 16]
    optimize_max_workers_table [of 51 16] optimize_max_workers_table [of 51 4]
  by simp

section \<open>Finalized order of a series\<close>




section \<open>The sort of a series\<close>




section \<open>The pipeline never raises\<close>

text \<open>
  C4. \<^verbatim>\<open>dicom_to_pil\<close> returns a pair for every data set and frame index. When its
  \<^verbatim>\<open>try\<close> block raises, at the pixel data or at any later stage, the result is the
  512 by 512 image of mode L filled with 128 and a dictionary with the one key
  \<^verbatim>\<open>error\<close>, the text of the exception. When the block succeeds, the result is its
  image, and the dictionary holds the window center, the window width, the photometric
  tag and the frame index, in that order.
\<close>

theorem dicom_to_pil_never_raises:
  "(dicom_to_pil_try L ds i = Inl e \<longrightarrow>
      dicom_to_pil L ds i = (placeholder, [(''error'', MStr (err_str e))]))
   \<and> (dicom_to_pil_try L ds i = Inr (img, md) \<longrightarrow>
        dicom_to_pil L ds i = (img, md)
        \<and> (\<exists>c w. md = [(''window_center'', meta_float c), (''window_width'', meta_float w),
              (''photometric'',
               MStr (case PhotometricInterpretation ds of Some p \<Rightarrow> p | None \<Rightarrow> ''MONOCHROME2'')),
              (''frame_index'', MInt i)]))
   \<and> (pixel_array ds = Inl e \<longrightarrow>
        dicom_to_pil L ds i = (placeholder, [(''error'', MStr (err_str e))]))
   \<and> ((\<exists>e'. dicom_to_pil L ds i = (placeholder, [(''error'', MStr (err_str e'))]))
       \<or> map fst (snd (dicom_to_pil L ds i))
            = [''window_center'', ''window_width'', ''photometric'', ''frame_index''])
   \<and> placeholder = \<lparr>img_mode = ''L'', img_size = (512, 512), img_data = Fill 128\<rparr>"
proof -
  have total: "(\<exists>e'. dicom_to_pil L ds i = (placeholder, [(''error'', MStr (err_str e'))]))
       \<or> map fst (snd (dicom_to_pil L ds i))
            = [''window_center'', ''window_width'', ''photometric'', ''frame_index'']"
  proof (cases "dicom_to_pil_try L ds i")
    case (Inl e')
    then show ?thesis by (auto simp add: dicom_to_pil_def)
  next
    case (Inr r)
    obtain img' md' where r: "r = (img', md')" by (cases r)
    from dicom_to_pil_try_metadata [of L ds i img' md'] Inr r
    show ?thesis by (auto simp add: dicom_to_pil_def)
  qed
  have succ: "dicom_to_pil_try L ds i = Inr (img, md) \<Longrightarrow>
        (\<exists>c w. md = [(''window_center'', meta_float c), (''window_width'', meta_float w),
              (''photometric'',
               MStr (case PhotometricInterpretation ds of Some p \<Rightarrow> p | None \<Rightarrow> ''MONOCHROME2'')),
              (''frame_index'', MInt i)])"
    by (rule dicom_to_pil_try_metadata)
  have px: "pixel_array ds = Inl e \<Longrightarrow>
        dicom_to_pil L ds i = (placeholder, [(''error'', MStr (err_str e))])"
    by (simp add: dicom_to_pil_def dicom_to_pil_try_def)
  show ?thesis
    using total succ px by (simp add: dicom_to_pil_def placeholder_def)
qed

theorem dicom_to_pil_never_raises_witness:
  "dicom_to_pil sample_libs single_frame 0
     = (\<lparr>img_mode = ''L'', img_size = (2, 2), img_data = Pixels [0, 85, 170, 255]\<rparr>,
        [(''window_center'', MFloat 150), (''window_width'', MFloat 300),
         (''photometric'', MStr ''MONOCHROME2''), (''frame_index'', MInt 0)])
   \<and> pixel_array bare_dataset = Inl (LibraryError ''no pixel data'')
   \<and> dicom_to_pil sample_libs bare_dataset 0
       = (placeholder, [(''error'', MStr ''no pixel data'')])
   \<and> dicom_to_pil sample_libs cine 5
       = (placeholder, [(''error'', MStr ''Frame index 5 out of range (max: 1)'')])"
proof -
  have h1: "pixel_array bare_dataset = Inl (LibraryError ''no pixel data'')"
    by (simp add: bare_dataset_def)
  have h2: "dicom_to_pil_try sample_libs cine 5
              = Inl (ValueError ''Frame index 5 out of range (max: 1)'')"
    by (simp add: dicom_to_pil_try_def cine_def bare_dataset_def select_frame_def
        take_frame_def str_int_def str_nat.simps)
  from dicom_to_pil_never_raises
         [of sample_libs single_frame 0 _
             "\<lparr>img_mode = ''L'', img_size = (2, 2), img_data = Pixels [0, 85, 170, 255]\<rparr>"
             "[(''window_center'', MFloat 150), (''window_width'', MFloat 300),
               (''photometric'', MStr ''MONOCHROME2''), (''frame_index'', MInt 0)]"]
       dicom_to_pil_never_raises [of sample_libs bare_dataset 0 "LibraryError ''no pixel data''"]
       dicom_to_pil_never_raises
         [of sample_libs cine 5 "ValueError ''Frame index 5 out of range (max: 1)''"]
       single_frame_try [of 0] h1 h2
  show ?thesis by simp
qed

section \<open>Frame index out of range\<close>

text \<open>
  C5, as amended. When the declared number of frames is greater than 1 and the frame
  index is equal to or greater than the length of the leading axis of the decoded pixel
  array, \<^verbatim>\<open>dicom_to_pil\<close> returns the placeholder with the error marker. When the number
  of frames is absent or at most 1, the frame index is not checked: the image is the same
  for every index.
\<close>

theorem frame_index_beyond_frames_placeholder:
  "(NumberOfFrames ds = Some (Parsed n) \<and> 1 < n \<and> pixel_array ds = Inr a
      \<and> shape a = k # rest \<and> int k \<le> i \<longrightarrow>
      dicom_to_pil L ds i
        = (placeholder,
           [(''error'', MStr (''Frame index '' @ str_int i @ '' out of range (max: ''
                               @ str_int (int k - 1) @ '')''))]))
   \<and> (NumberOfFrames ds = None \<or> (NumberOfFrames ds = Some (Parsed n) \<and> n \<le> 1) \<longrightarrow>
        fst (dicom_to_pil L ds i) = fst (dicom_to_pil L ds j))"
proof (intro conjI impI)
  assume "NumberOfFrames ds = Some (Parsed n) \<and> 1 < n \<and> pixel_array ds = Inr a
      \<and> shape a = k # rest \<and> int k \<le> i"
  then show "dicom_to_pil L ds i
        = (placeholder,
           [(''error'', MStr (''Frame index '' @ str_int i @ '' out of range (max: ''
                               @ str_int (int k - 1) @ '')''))])"
    by (simp add: dicom_to_pil_def dicom_to_pil_try_def select_frame_def take_frame_def)
next
  assume h: "NumberOfFrames ds = None \<or> (NumberOfFrames ds = Some (Parsed n) \<and> n \<le> 1)"
  then have sel: "select_frame ds x i = select_frame ds x j" for x
    by (auto simp add: select_frame_def)
  show "fst (dicom_to_pil L ds i) = fst (dicom_to_pil L ds j)"
    by (auto simp add: dicom_to_pil_def dicom_to_pil_try_def Let_def sel
        split: sum.splits prod.splits)
qed

theorem frame_index_beyond_frames_placeholder_witness:
  "NumberOfFrames cine = Some (Parsed 2)
   \<and> pixel_array cine = Inr \<lparr>shape = [2, 1, 1], dtype = Float, elems = [10, 20]\<rparr>
   \<and> dicom_to_pil sample_libs cine 2
       = (placeholder, [(''error'', MStr ''Frame index 2 out of range (max: 1)'')])
   \<and> NumberOfFrames single_frame = Some (Parsed 1)
   \<and> fst (dicom_to_pil sample_libs single_frame 1) = fst (dicom_to_pil sample_libs single_frame 0)"
proof -
  have h1: "NumberOfFrames cine = Some (Parsed 2)"
    and h2: "pixel_array cine = Inr \<lparr>shape = [2, 1, 1], dtype = Float, elems = [10, 20]\<rparr>"
    and h3: "NumberOfFrames single_frame = Some (Parsed 1)"
    by (simp_all add: cine_def single_frame_def)
  have s: "str_int 2 = ''2''" "str_int (int 2 - 1) = ''1''"
    by (simp_all add: str_int_def str_nat.simps)
  from frame_index_beyond_frames_placeholder
         [of cine 2 "\<lparr>shape = [2, 1, 1], dtype = Float, elems = [10, 20]\<rparr>" 2 "[1, 1]" 2
             sample_libs]
       frame_index_beyond_frames_placeholder [of single_frame 1 _ _ _ 1 sample_libs 0]
       h1 h2 h3 s
  show ?thesis by simp
qed

text \<open>
  C5 as stated fails: a data set that declares one frame, converted with frame index 1,
  gives the converted image and no error marker.
\<close>

theorem frame_index_at_declared_count_counterexample:
  "NumberOfFrames single_frame = Some (Parsed 1)
   \<and> dicom_to_pil sample_libs single_frame 1
     = (\<lparr>img_mode = ''L'', img_size = (2, 2), img_data = Pixels [0, 85, 170, 255]\<rparr>,
        [(''window_center'', MFloat 150), (''window_width'', MFloat 300),
         (''photometric'', MStr ''MONOCHROME2''), (''frame_index'', MInt 1)])"
  by (simp add: dicom_to_pil_def single_frame_try) (simp add: single_frame_def)

section \<open>Missing metadata key and empty results\<close>




section \<open>Fetching one instance\<close>

text \<open>
  C7. \<^verbatim>\<open>download_dicom_instance\<close> returns a data set or \<^verbatim>\<open>None\<close>, never an exception,
  and sends at most one request. When the address is not configured, when the request
  fails, when the status is not 200 or when the payload does not decode, it returns
  \<^verbatim>\<open>None\<close> with one warning that names the instance and the error; otherwise it
  returns the decoded data set and logs no warning.
\<close>

theorem download_absent_on_error_single_request:
  "length (fst (snd (download_dicom_instance W a b c))) \<le> 1
   \<and> (fst (download_dicom_instance W a b c) = None
        \<or> (\<exists>ds. fst (download_dicom_instance W a b c) = Some ds))
   \<and> (get_dicom_wado_url W = Inl e \<longrightarrow>
        download_dicom_instance W a b c
          = (None, [], [''Failed to download instance '' @ c @ '': '' @ err_str e]))
   \<and> (get_dicom_wado_url W = Inr url \<and> urlopen W (instance_request url a b c) = Inl e \<longrightarrow>
        download_dicom_instance W a b c
          = (None, [instance_request url a b c],
             [''Failed to download instance '' @ c @ '': '' @ err_str e]))
   \<and> (get_dicom_wado_url W = Inr url \<and> urlopen W (instance_request url a b c) = Inr resp
        \<and> status resp \<noteq> 200 \<longrightarrow>
        download_dicom_instance W a b c
          = (None, [instance_request url a b c],
             [''Failed to download instance '' @ c @ '': '' @ err_str (HTTPError (status resp) (''HTTP '' @ str_int (status resp)))]))
   \<and> (get_dicom_wado_url W = Inr url \<and> urlopen W (instance_request url a b c) = Inr resp
        \<and> status resp = 200 \<and> dcmread W (body resp) = Inl e \<longrightarrow>
        download_dicom_instance W a b c
          = (None, [instance_request url a b c],
             [''Failed to download instance '' @ c @ '': '' @ err_str e]))
   \<and> (get_dicom_wado_url W = Inr url \<and> urlopen W (instance_request url a b c) = Inr resp
        \<and> status resp = 200 \<and> dcmread W (body resp) = Inr ds \<longrightarrow>
        download_dicom_instance W a b c = (Some ds, [instance_request url a b c], []))"
  by (auto simp add: download_dicom_instance_def download_attempt_def Let_def
      split: sum.splits prod.splits)

theorem download_absent_on_error_single_request_witness:
  "download_dicom_instance sample_world ''1.2'' ''1.2.1'' ''a''
     = (Some (sample_instance ''a''),
        [instance_request ''http://pacs/wado/'' ''1.2'' ''1.2.1'' ''a''], [])
   \<and> download_dicom_instance sample_world ''1.2'' ''1.2.1'' ''b''
     = (None, [instance_request ''http://pacs/wado/'' ''1.2'' ''1.2.1'' ''b''],
        [''Failed to download instance b: not a DICOM file''])
   \<and> download_dicom_instance offline_world ''1.2'' ''1.2.1'' ''a''
     = (None, [instance_request ''http://pacs/wado/'' ''1.2'' ''1.2.1'' ''a''],
        [''Failed to download instance a: HTTP Error 404: Not Found''])
   \<and> download_dicom_instance no_content_world ''1.2'' ''1.2.1'' ''a''
     = (None, [instance_request ''http://pacs/wado/'' ''1.2'' ''1.2.1'' ''a''],
        [''Failed to download instance a: HTTP Error 204: HTTP 204''])
   \<and> download_dicom_instance unconfigured_world ''1.2'' ''1.2.1'' ''a''
     = (None, [],
        [''Failed to download instance a: DICOM_WADO_URL environment variable not configured or empty''])"
proof -
  let ?req = "\<lambda>sop. instance_request ''http://pacs/wado/'' ''1.2'' ''1.2.1'' sop"
  have a: "urlopen sample_world (?req ''a'') = Inr \<lparr>status = 200, body = ''a''\<rparr>"
    and b: "urlopen sample_world (?req ''b'') = Inr \<lparr>status = 200, body = ''b''\<rparr>"
    and da: "dcmread sample_world ''a'' = Inr (sample_instance ''a'')"
    and db: "dcmread sample_world ''b'' = Inl (LibraryError ''not a DICOM file'')"
    and off: "urlopen offline_world (?req ''a'') = Inl (HTTPError 404 ''Not Found'')"
    and nc: "urlopen no_content_world (?req ''a'') = Inr \<lparr>status = 204, body = []\<rparr>"
    by (simp_all add: sample_world_def offline_world_def no_content_world_def
        instance_request_def)
  from download_absent_on_error_single_request
         [of sample_world "''1.2''" "''1.2.1''" "''a''" _ "''http://pacs/wado/''"
             "\<lparr>status = 200, body = ''a''\<rparr>" "sample_instance ''a''"]
       download_absent_on_error_single_request
         [of sample_world "''1.2''" "''1.2.1''" "''b''" "LibraryError ''not a DICOM file''"
             "''http://pacs/wado/''" "\<lparr>status = 200, body = ''b''\<rparr>"]
       download_absent_on_error_single_request
         [of offline_world "''1.2''" "''1.2.1''" "''a''" "HTTPError 404 ''Not Found''"
             "''http://pacs/wado/''"]
       download_absent_on_error_single_request
         [of no_content_world "''1.2''" "''1.2.1''" "''a''" _ "''http://pacs/wado/''"
             "\<lparr>status = 204, body = []\<rparr>"]
       download_absent_on_error_single_request
         [of unconfigured_world "''1.2''" "''1.2.1''" "''a''"
             "ValueError ''DICOM_WADO_URL environment variable not configured or empty''"]
       a b da db off nc sample_url offline_url no_content_url unconfigured_url
  show ?thesis by (simp add: str_int_def str_nat.simps)
qed

section \<open>Study-level descriptive fields\<close>

text \<open>
  C8, as amended. Each of the five descriptive fields of a study is the first text that
  is not empty among the values the added instances carry for its attribute, and a field
  that is not empty is never changed by later calls of \<^verbatim>\<open>add_instance\<close>.
\<close>

theorem study_fields_first_nonempty_wins:
  "patient_name (foldl DicomStudy_add_instance (DicomStudy_init u) xs) = first_nonempty (map PatientName xs)
   \<and> patient_id (foldl DicomStudy_add_instance (DicomStudy_init u) xs) = first_nonempty (map PatientID xs)
   \<and> study_date (foldl DicomStudy_add_instance (DicomStudy_init u) xs) = first_nonempty (map StudyDate xs)
   \<and> accession_number (foldl DicomStudy_add_instance (DicomStudy_init u) xs) = first_nonempty (map AccessionNumber xs)
   \<and> study_description (foldl DicomStudy_add_instance (DicomStudy_init u) xs) = first_nonempty (map StudyDescription xs)
   \<and> (patient_name st \<noteq> [] \<longrightarrow> patient_name (foldl DicomStudy_add_instance st xs) = patient_name st)
   \<and> (patient_id st \<noteq> [] \<longrightarrow> patient_id (foldl DicomStudy_add_instance st xs) = patient_id st)
   \<and> (study_date st \<noteq> [] \<longrightarrow> study_date (foldl DicomStudy_add_instance st xs) = study_date st)
   \<and> (accession_number st \<noteq> [] \<longrightarrow> accession_number (foldl DicomStudy_add_instance st xs) = accession_number st)
   \<and> (study_description st \<noteq> [] \<longrightarrow> study_description (foldl DicomStudy_add_instance st xs) = study_description st)"
  by (simp add: patient_name_foldl patient_id_foldl study_date_foldl accession_number_foldl
      study_description_foldl first_write_foldl DicomStudy_init_def)

theorem study_fields_first_nonempty_wins_witness:
  "patient_name (foldl DicomStudy_add_instance (DicomStudy_init ''1.2'')
      [bare_dataset\<lparr>PatientName := Some []\<rparr>,
       bare_dataset\<lparr>PatientName := Some ''DOE^JANE'', StudyDate := Some ''20240131''\<rparr>,
       bare_dataset\<lparr>PatientName := Some ''ROE^RICHARD''\<rparr>]) = ''DOE^JANE''
   \<and> study_date (foldl DicomStudy_add_instance (DicomStudy_init ''1.2'')
      [bare_dataset\<lparr>PatientName := Some []\<rparr>,
       bare_dataset\<lparr>PatientName := Some ''DOE^JANE'', StudyDate := Some ''20240131''\<rparr>,
       bare_dataset\<lparr>PatientName := Some ''ROE^RICHARD''\<rparr>]) = ''20240131''
   \<and> patient_name (foldl DicomStudy_add_instance
        \<lparr>study_uid = ''1.2'', series = [], patient_name = ''DOE^JANE'', patient_id = ''7'',
         study_date = ''20240131'', accession_number = ''A1'', study_description = ''CT''\<rparr>
        [bare_dataset\<lparr>PatientName := Some ''ROE^RICHARD'', PatientID := Some ''8'',
           StudyDate := Some ''20240201'', AccessionNumber := Some ''A2'',
           StudyDescription := Some ''MR''\<rparr>]) = ''DOE^JANE''
   \<and> patient_id (foldl DicomStudy_add_instance
        \<lparr>study_uid = ''1.2'', series = [], patient_name = ''DOE^JANE'', patient_id = ''7'',
         study_date = ''20240131'', accession_number = ''A1'', study_description = ''CT''\<rparr>
        [bare_dataset\<lparr>PatientName := Some ''ROE^RICHARD'', PatientID := Some ''8'',
           StudyDate := Some ''20240201'', AccessionNumber := Some ''A2'',
           StudyDescription := Some ''MR''\<rparr>]) = ''7''
   \<and> study_date (foldl DicomStudy_add_instance
        \<lparr>study_uid = ''1.2'', series = [], patient_name = ''DOE^JANE'', patient_id = ''7'',
         study_date = ''20240131'', accession_number = ''A1'', study_description = ''CT''\<rparr>
        [bare_dataset\<lparr>PatientName := Some ''ROE^RICHARD'', PatientID := Some ''8'',
           StudyDate := Some ''20240201'', AccessionNumber := Some ''A2'',
           StudyDescription := Some ''MR''\<rparr>]) = ''20240131''
   \<and> accession_number (foldl DicomStudy_add_instance
        \<lparr>study_uid = ''1.2'', series = [], patient_name = ''DOE^JANE'', patient_id = ''7'',
         study_date = ''20240131'', accession_number = ''A1'', study_description = ''CT''\<rparr>
        [bare_dataset\<lparr>PatientName := Some ''ROE^RICHARD'', PatientID := Some ''8'',
           StudyDate := Some ''20240201'', AccessionNumber := Some ''A2'',
           StudyDescription := Some ''MR''\<rparr>]) = ''A1''
   \<and> study_description (foldl DicomStudy_add_instance
        \<lparr>study_uid = ''1.2'', series = [], patient_name = ''DOE^JANE'', patient_id = ''7'',
         study_date = ''20240131'', accession_number = ''A1'', study_description = ''CT''\<rparr>
        [bare_dataset\<lparr>PatientName := Some ''ROE^RICHARD'', PatientID := Some ''8'',
           StudyDate := Some ''20240201'', AccessionNumber := Some ''A2'',
           StudyDescription := Some ''MR''\<rparr>]) = ''CT''"
  using study_fields_first_nonempty_wins
    [of "''1.2''"
        "[bare_dataset\<lparr>PatientName := Some []\<rparr>,
          bare_dataset\<lparr>PatientName := Some ''DOE^JANE'', StudyDate := Some ''20240131''\<rparr>,
          bare_dataset\<lparr>PatientName := Some ''ROE^RICHARD''\<rparr>]"]
    study_fields_first_nonempty_wins
    [of _ "[bare_dataset\<lparr>PatientName := Some ''ROE^RICHARD'', PatientID := Some ''8'',
           StudyDate := Some ''20240201'', AccessionNumber := Some ''A2'',
           StudyDescription := Some ''MR''\<rparr>]"
        "\<lparr>study_uid = ''1.2'', series = [], patient_name = ''DOE^JANE'', patient_id = ''7'',
         study_date = ''20240131'', accession_number = ''A1'', study_description = ''CT''\<rparr>"]
  by (simp add: bare_sel)

text \<open>
  C8 as stated fails: the first instance carries the patient name with an empty value,
  and the field is then taken from the second instance.
\<close>

theorem study_fields_first_carrier_counterexample:
  "patient_name (DicomStudy_add_instance
      (DicomStudy_add_instance (DicomStudy_init ''1.2'') (bare_dataset\<lparr>PatientName := Some []\<rparr>))
      (bare_dataset\<lparr>PatientName := Some ''DOE^JANE''\<rparr>)) = ''DOE^JANE''"
  by (simp add: DicomStudy_add_instance_def DicomStudy_init_def Let_def first_write_def bare_dataset_def)

section \<open>Automatic window\<close>

text \<open>
  C9 fails on an array of signed 16-bit pixels whose greatest and least values are more
  than 32767 apart. For 51 pixels that are 0 but for one -32768 and one 32767, both
  percentiles are 0, the width \<open>p98 - p2\<close> is below 1, and the difference of the maximum
  and the minimum, taken in the dtype of the array, wraps around to -1: \<^verbatim>\<open>auto_window\<close>
  returns the width 1, where the larger of 1 and the maximum minus the minimum is 65535.
\<close>

theorem auto_window_int16_wraps:
  "dtype spiked = SInt 16
   \<and> np_percentile sample_libs spiked 2 = Inr 0
   \<and> np_percentile sample_libs spiked 98 = Inr 0
   \<and> arr_min spiked = Inr (- 32768)
   \<and> arr_max spiked = Inr 32767
   \<and> np_sub (SInt 16) 32767 (- 32768) = - 1
   \<and> auto_window sample_libs spiked = Inr (0, 1)
   \<and> max 1 (Max (set (elems spiked)) - Min (set (elems spiked))) = 65535"
  by (intro conjI; code_simp)

section \<open>The UNKNOWN series and empty series\<close>

text \<open>
  C10. An instance without a series identifier is routed under the key UNKNOWN, and the
  instances of a study that lack one form a single series under that key, in arrival
  order. Every series carries the key it is stored under as its identifier. Adding instances only appends to the series of their routing key. Every series
  of a study built by \<^verbatim>\<open>add_instance\<close> holds an instance, \<^verbatim>\<open>add_instance\<close> keeps it
  so and \<^verbatim>\<open>finalize\<close>, when it returns, keeps it so, and every study that \<^verbatim>\<open>process_dicom_wado_study\<close>
  returns has a series and no empty series.
\<close>

theorem unknown_bucket_no_empty_series:
  "(SeriesInstanceUID ds = None \<longrightarrow> routing_key ds = ''UNKNOWN'')
   \<and> series_instances (foldl DicomStudy_add_instance st xs) uid
       = series_instances st uid @ filter (\<lambda>d. routing_key d = uid) xs
   \<and> ((\<forall>d\<in>set xs. SeriesInstanceUID d = None) \<and> xs \<noteq> [] \<longrightarrow>
        map fst (series (foldl DicomStudy_add_instance (DicomStudy_init u) xs)) = [''UNKNOWN'']
        \<and> series_instances (foldl DicomStudy_add_instance (DicomStudy_init u) xs) ''UNKNOWN'' = xs)
   \<and> list_all (\<lambda>(k, s). series_uid s = k)
        (series (foldl DicomStudy_add_instance (DicomStudy_init u) xs))
   \<and> no_empty_series (foldl DicomStudy_add_instance (DicomStudy_init u) xs)
   \<and> (no_empty_series st \<longrightarrow> no_empty_series (DicomStudy_add_instance st ds))
   \<and> (no_empty_series st \<and> DicomStudy_finalize st = Inr st' \<longrightarrow> no_empty_series st')
   \<and> (process_dicom_wado_study W sid mw = Inr studies \<longrightarrow> list_all good_study studies)"
proof -
  have "series_instances (foldl DicomStudy_add_instance (DicomStudy_init u) xs) ''UNKNOWN'' = xs"
    if "\<forall>d\<in>set xs. SeriesInstanceUID d = None"
  proof -
    from that have "filter (\<lambda>d. routing_key d = ''UNKNOWN'') xs = xs"
      by (simp add: routing_unknown)
    then show ?thesis by (simp add: series_instances_foldl series_instances_init)
  qed
  moreover have "no_empty_series st'" if "no_empty_series st" and "DicomStudy_finalize st = Inr st'"
    using that by (rule no_empty_series_finalize)
  ultimately show ?thesis
    by (simp add: routing_unknown series_instances_foldl unknown_bucket no_empty_series_foldl
        keys_match_init no_empty_series_init no_empty_series_add process_no_empty)
qed

theorem unknown_bucket_no_empty_series_witness:
  "SeriesInstanceUID read_dataset = None
   \<and> routing_key read_dataset = ''UNKNOWN''
   \<and> SeriesInstanceUID (sample_instance ''c'') = None
   \<and> SeriesInstanceUID (sample_instance ''a'') = None
   \<and> map fst (series (foldl DicomStudy_add_instance (DicomStudy_init ''1.2'')
        [sample_instance ''c'', sample_instance ''a'']))
       = [''UNKNOWN'']
   \<and> series_instances (foldl DicomStudy_add_instance (DicomStudy_init ''1.2'')
        [sample_instance ''c'', sample_instance ''a''])
        ''UNKNOWN''
       = [sample_instance ''c'', sample_instance ''a'']
   \<and> no_empty_series (DicomStudy_init ''1.2'')
   \<and> no_empty_series (DicomStudy_add_instance (DicomStudy_init ''1.2'') read_dataset)
   \<and> DicomStudy_finalize (foldl DicomStudy_add_instance (DicomStudy_init ''1.2'')
        [sample_instance ''c'', sample_instance ''a''])
       = Inr (snd (hd sample_result))
   \<and> no_empty_series (snd (hd sample_result))
   \<and> process_dicom_wado_study sample_world ''1.2'' 4 = Inr sample_result
   \<and> list_all good_study sample_result"
proof -
  let ?xs = "[sample_instance ''c'', sample_instance ''a'']"
  let ?st = "foldl DicomStudy_add_instance (DicomStudy_init ''1.2'') ?xs"
  have h1: "SeriesInstanceUID read_dataset = None" by (simp add: read_sel)
  have h2: "\<forall>d\<in>set ?xs. SeriesInstanceUID d = None" by (simp add: sample_sel)
  have h3: "no_empty_series (DicomStudy_init ''1.2'')"
    by (simp add: no_empty_series_def DicomStudy_init_def)
  have h4: "process_dicom_wado_study sample_world ''1.2'' 4 = Inr sample_result"
    by (rule sample_process)
  have h5: "?xs \<noteq> []" by simp
  have h6: "SeriesInstanceUID (sample_instance ''c'') = None"
    and h7: "SeriesInstanceUID (sample_instance ''a'') = None"
    by (simp_all add: sample_sel)
  have h8: "DicomStudy_finalize ?st = Inr (snd (hd sample_result))"
    by (simp add: DicomStudy_add_instance_def DicomStudy_init_def DicomSeries_init_def
        DicomSeries_add_instance_def routing_key_def first_write_def Let_def
        DicomStudy_finalize_def DicomSeries_sort_instances_def sample_result_def sample_sel
        sort_raises_def sample_keys)
  note t1 = unknown_bucket_no_empty_series
         [where ds = read_dataset and st = "DicomStudy_init ''1.2''" and xs = ?xs
            and uid = "''UNKNOWN''" and u = "''1.2''" and W = sample_world and sid = "''1.2''"
            and mw = 4 and studies = sample_result]
  note t2 = unknown_bucket_no_empty_series
         [where st = ?st and st' = "snd (hd sample_result)" and u = "''1.2''" and xs = ?xs]
  from t2 h8 have h9: "no_empty_series (snd (hd sample_result))" by blast
  from t1 h1 h2 h3 h4 h5 h6 h7 h8 h9 show ?thesis by blast
qed

end
